theory Spec2Isabelle
  imports Main "HOL-Library.Word"
begin

section \<open>Python strings\<close>

text \<open>
  A Python \<open>str\<close> is modelled as a HOL \<open>string\<close>: a list of 8-bit characters, read as
  the code points U+0000 .. U+00FF. \<open>len\<close> is \<open>length\<close>. The truth value of a string is
  "not empty".
\<close>

text \<open>\<open>str.isspace\<close> on one character: the white space of Python below U+0100.\<close>

definition isspace :: "char \<Rightarrow> bool" where
  "isspace c = ((of_char c :: nat) \<in> set [9, 10, 11, 12, 13, 28, 29, 30, 31, 32, 133, 160])"

text \<open>\<open>str.strip()\<close>: white space removed at both ends.\<close>

definition strip :: "string \<Rightarrow> string" where
  "strip s = rev (dropWhile isspace (rev (dropWhile isspace s)))"

text \<open>\<open>str.lower()\<close>: A-Z and the capital letters of Latin-1 move up by 32.\<close>

definition lower_char :: "char \<Rightarrow> char" where
  "lower_char c =
     (let n = (of_char c :: nat)
      in if (65 \<le> n \<and> n \<le> 90) \<or> (192 \<le> n \<and> n \<le> 222 \<and> n \<noteq> 215)
         then char_of (n + 32) else c)"

definition lower :: "string \<Rightarrow> string" where
  "lower s = map lower_char s"

text \<open>
  \<open>s.split(sep)\<close> for a one-character separator: the list of the pieces between the
  separators, never empty (\<open>''.split('.') == ['']\<close>).
\<close>

fun split :: "char \<Rightarrow> string \<Rightarrow> string list" where
  "split sep [] = [[]]"
| "split sep (c # cs) =
     (if c = sep then [] # split sep cs
      else (case split sep cs of
              [] \<Rightarrow> [[c]]
            | p # ps \<Rightarrow> (c # p) # ps))"

text \<open>\<open>sep.join(xs)\<close>.\<close>

fun join :: "string \<Rightarrow> string list \<Rightarrow> string" where
  "join sep [] = []"
| "join sep [x] = x"
| "join sep (x # y # ys) = x @ sep @ join sep (y # ys)"

text \<open>
  \<open>re.match(r'^[...]+$', s)\<close> for a character class: one or more characters of the class,
  up to the end of the string or up to a single newline that ends the string (Python's
  \<open>$\<close> also matches just before a final newline).
\<close>

definition re_match_class :: "(char \<Rightarrow> bool) \<Rightarrow> string \<Rightarrow> bool" where
  "re_match_class cls s =
     (case dropWhile cls s of
        [] \<Rightarrow> s \<noteq> []
      | c # rest \<Rightarrow> c = CHR 0x0A \<and> rest = [] \<and> takeWhile cls s \<noteq> [])"

definition alnum :: "char \<Rightarrow> bool" where
  "alnum c =
     (let n = (of_char c :: nat)
      in (97 \<le> n \<and> n \<le> 122) \<or> (65 \<le> n \<and> n \<le> 90) \<or> (48 \<le> n \<and> n \<le> 57))"

text \<open>The class \<open>[a-zA-Z0-9\s\-_]\<close> of the tag pattern.\<close>

definition tag_char :: "char \<Rightarrow> bool" where
  "tag_char c = (alnum c \<or> isspace c \<or> c = CHR ''-'' \<or> c = CHR ''_'')"

text \<open>The class \<open>[a-zA-Z0-9\-_]\<close> of the user id pattern.\<close>

definition user_id_char :: "char \<Rightarrow> bool" where
  "user_id_char c = (alnum c \<or> c = CHR ''-'' \<or> c = CHR ''_'')"


section \<open>Validators (src/utils/validators.py)\<close>

subsection \<open>ImageValidator\<close>

definition ALLOWED_EXTENSIONS :: "string list" where
  "ALLOWED_EXTENSIONS = [''jpg'', ''jpeg'', ''png'', ''gif'', ''webp'']"

definition MAX_FILE_SIZE :: int where "MAX_FILE_SIZE = 10 * 1024 * 1024"
definition MIN_FILE_SIZE :: int where "MIN_FILE_SIZE = 1024"
definition MAX_DIMENSION :: int where "MAX_DIMENSION = 4000"
definition MIN_DIMENSION :: int where "MIN_DIMENSION = 50"

text \<open>
  \<open>validate_file_extension\<close>: the empty name fails; otherwise the last piece of the
  lower-cased name split at the dots (\<open>split\<close> is never empty, so \<open>[-1]\<close> is \<open>last\<close>) must
  be an allowed extension.
\<close>

definition validate_file_extension :: "string \<Rightarrow> bool" where
  "validate_file_extension filename =
     (if filename = [] then False
      else last (split CHR ''.'' (lower filename)) \<in> set ALLOWED_EXTENSIONS)"

definition validate_file_size :: "int \<Rightarrow> bool" where
  "validate_file_size file_size = (MIN_FILE_SIZE \<le> file_size \<and> file_size \<le> MAX_FILE_SIZE)"

text \<open>
  What \<open>PIL.Image.open\<close> makes of the uploaded bytes is outside the repository: it either
  raises (with a message) or gives the size and the format name, which may be missing.
\<close>

datatype pil_outcome = PilRaises string | PilImage int int "string option"

text \<open>The result dictionaries of the validators: \<open>{'valid': True, ...}\<close> or an error text.\<close>

datatype 'a validation = Valid 'a | Invalid string

definition validate_image_content :: "pil_outcome \<Rightarrow> (int \<times> int \<times> string) validation" where
  "validate_image_content opened =
     (case opened of
        PilRaises msg \<Rightarrow> Invalid (''Invalid image file: '' @ msg)
      | PilImage w h fmt \<Rightarrow>
          (let format_type = (case fmt of
                                None \<Rightarrow> ''unknown''
                              | Some f \<Rightarrow> if f \<noteq> [] then lower f else ''unknown'')
           in if w < MIN_DIMENSION \<or> h < MIN_DIMENSION \<or> w > MAX_DIMENSION \<or> h > MAX_DIMENSION
              then Invalid ''Image dimensions must be between 50px and 4000px''
              else Valid (w, h, format_type)))"

subsection \<open>MetadataValidator\<close>

definition MAX_TITLE_LENGTH :: nat where "MAX_TITLE_LENGTH = 200"
definition MAX_DESCRIPTION_LENGTH :: nat where "MAX_DESCRIPTION_LENGTH = 1000"
definition MAX_TAGS_COUNT :: nat where "MAX_TAGS_COUNT = 10"
definition MAX_TAG_LENGTH :: nat where "MAX_TAG_LENGTH = 50"

text \<open>\<open>not title\<close> holds for \<open>None\<close> and for the empty string.\<close>

definition validate_title :: "string option \<Rightarrow> unit validation" where
  "validate_title title =
     (case title of
        None \<Rightarrow> Valid ()
      | Some t \<Rightarrow>
          if t = [] then Valid ()
          else if length (strip t) = 0 then Invalid ''Title cannot be empty''
          else if length t > MAX_TITLE_LENGTH
            then Invalid ''Title must be less than 200 characters''
          else Valid ())"

definition validate_description :: "string option \<Rightarrow> unit validation" where
  "validate_description description =
     (case description of
        None \<Rightarrow> Valid ()
      | Some d \<Rightarrow>
          if d = [] then Valid ()
          else if length d > MAX_DESCRIPTION_LENGTH
            then Invalid ''Description must be less than 1000 characters''
          else Valid ())"

text \<open>The loop over the tags of \<open>validate_tags\<close>: the first tag that fails decides.\<close>

fun validate_each_tag :: "string list \<Rightarrow> unit validation" where
  "validate_each_tag [] = Valid ()"
| "validate_each_tag (tag # rest) =
     (if length (strip tag) = 0 then Invalid ''Tags cannot be empty''
      else if length tag > MAX_TAG_LENGTH
        then Invalid ''Each tag must be less than 50 characters''
      else if \<not> re_match_class tag_char tag
        then Invalid ''Tags can only contain letters, numbers, spaces, hyphens, and underscores''
      else validate_each_tag rest)"

text \<open>
  \<open>validate_tags\<close> on the type the upload request gives it (a list of strings or
  \<open>None\<close>); \<open>not tags\<close> holds for \<open>None\<close> and for the empty list.
\<close>

definition validate_tags :: "string list option \<Rightarrow> unit validation" where
  "validate_tags tags =
     (case tags of
        None \<Rightarrow> Valid ()
      | Some ts \<Rightarrow>
          if ts = [] then Valid ()
          else if length ts > MAX_TAGS_COUNT then Invalid ''Maximum 10 tags allowed''
          else validate_each_tag ts)"

definition validate_user_id :: "string \<Rightarrow> unit validation" where
  "validate_user_id user_id =
     (if user_id = [] then Invalid ''User ID is required''
      else if length (strip user_id) = 0 then Invalid ''User ID cannot be empty''
      else if \<not> re_match_class user_id_char user_id
        then Invalid ''User ID can only contain letters, numbers, hyphens, and underscores''
      else Valid ())"



section \<open>Data model (src/models/image_model.py)\<close>

text \<open>
  Python values that travel as dictionaries or through JSON: the result of
  \<open>model_dump\<close>, the store's last evaluated key and a decoded page token.
\<close>

datatype pyval =
    PNone
  | PBool bool
  | PInt int
  | PStr string
  | PList "pyval list"
  | PDict "(string \<times> pyval) list"

text \<open>The truth value Python gives a value in \<open>if v:\<close>.\<close>

fun truthy :: "pyval \<Rightarrow> bool" where
  "truthy PNone = False"
| "truthy (PBool b) = b"
| "truthy (PInt n) = (n \<noteq> 0)"
| "truthy (PStr s) = (s \<noteq> [])"
| "truthy (PList xs) = (xs \<noteq> [])"
| "truthy (PDict kvs) = (kvs \<noteq> [])"

text \<open>
  The exceptions the code meets. \<open>Unmodelled\<close> is not one of them: where a function of the
  Python library is given below by a definition, that definition answers \<open>Unmodelled\<close> on
  the arguments whose outcome in Python lies outside the values of this theory (a text
  with a code point above U+00FF, a float, nesting deeper than 64, an integer of more
  than 4300 digits). There the definition says nothing about Python.
\<close>

datatype exn =
  ClientError | OtherError | ValidationError | KeyError | DecodeError | TypeError | Unmodelled

text \<open>\<open>d[k]\<close> on a dictionary raises \<open>KeyError\<close> on a missing key.\<close>

definition getitem :: "(string \<times> pyval) list \<Rightarrow> string \<Rightarrow> exn + pyval" where
  "getitem d k = (case map_of d k of None \<Rightarrow> Inl KeyError | Some v \<Rightarrow> Inr v)"

text \<open>
  The request model. Its field constraints are checked where \<open>main.py\<close> builds the
  request; the service validates the fields again with the validators above.
\<close>

record ImageUploadRequest =
  req_title :: "string option"
  req_description :: "string option"
  req_tags :: "string list option"
  req_user_id :: string

record ImageMetadata =
  md_image_id :: string
  md_created_at :: string
  md_user_id :: string
  md_title :: "string option"
  md_description :: "string option"
  md_tags :: "string list option"
  md_file_name :: string
  md_file_size :: int
  md_content_type :: string
  md_width :: int
  md_height :: int
  md_format :: string
  md_s3_key :: string
  md_is_deleted :: bool
  md_updated_at :: "string option"

text \<open>
  \<open>ImageMetadata.create_new\<close>. The fresh \<open>uuid4\<close> and the two readings of the clock
  (\<open>isoformat()\<close> and \<open>strftime('%Y/%m')\<close>) are inputs.
\<close>

record fresh =
  new_uuid :: string
  now_iso :: string
  now_year_month :: string

definition create_new ::
  "fresh \<Rightarrow> ImageUploadRequest \<Rightarrow> string \<Rightarrow> int \<Rightarrow> string \<Rightarrow> int \<Rightarrow> int \<Rightarrow> string
     \<Rightarrow> ImageMetadata" where
  "create_new fr upload_request file_name file_size content_type width height format =
     \<lparr> md_image_id = new_uuid fr,
       md_created_at = now_iso fr,
       md_user_id = req_user_id upload_request,
       md_title = req_title upload_request,
       md_description = req_description upload_request,
       md_tags = req_tags upload_request,
       md_file_name = file_name,
       md_file_size = file_size,
       md_content_type = content_type,
       md_width = width,
       md_height = height,
       md_format = format,
       md_s3_key = ''images/'' @ now_year_month fr @ ''/'' @ new_uuid fr @ ''.'' @ lower format,
       md_is_deleted = False,
       md_updated_at = None \<rparr>"

text \<open>
  The dictionary of an image as it is written to and read from the metadata store and
  passed around by the service: the keys of \<open>ImageMetadata\<close>, where the value under
  \<open>'tags'\<close> is \<open>None\<close>, a list of strings or a string.
\<close>

datatype tags_value = TagsNone | TagsList "string list" | TagsStr string

record image_data =
  image_id :: string
  created_at :: string
  user_id :: string
  title :: "string option"
  description :: "string option"
  tags :: tags_value
  file_name :: string
  file_size :: int
  content_type :: string
  width :: int
  height :: int
  format :: string
  s3_key :: string
  is_deleted :: bool
  updated_at :: "string option"

text \<open>\<open>ImageMetadata.model_dump()\<close>.\<close>

definition metadata_model_dump :: "ImageMetadata \<Rightarrow> image_data" where
  "metadata_model_dump m =
     \<lparr> image_id = md_image_id m,
       created_at = md_created_at m,
       user_id = md_user_id m,
       title = md_title m,
       description = md_description m,
       tags = (case md_tags m of None \<Rightarrow> TagsNone | Some ts \<Rightarrow> TagsList ts),
       file_name = md_file_name m,
       file_size = md_file_size m,
       content_type = md_content_type m,
       width = md_width m,
       height = md_height m,
       format = md_format m,
       s3_key = md_s3_key m,
       is_deleted = md_is_deleted m,
       updated_at = md_updated_at m \<rparr>"

record ImageResponse =
  r_image_id :: string
  r_created_at :: string
  r_user_id :: string
  r_title :: "string option"
  r_description :: "string option"
  r_tags :: "string list option"
  r_file_name :: string
  r_file_size :: int
  r_content_type :: string
  r_width :: int
  r_height :: int
  r_format :: string
  r_download_url :: "string option"
  r_thumbnail_url :: "string option"

text \<open>
  \<open>ImageResponse(**api_data)\<close>: the keys that are no field of the response model
  (\<open>s3_key\<close>, \<open>is_deleted\<close>, \<open>updated_at\<close>) are dropped, and \<open>tags\<close>, declared
  \<open>Optional[List[str]]\<close>, is refused with a validation error when it is a string.
\<close>

definition ImageResponse_of :: "image_data \<Rightarrow> exn + ImageResponse" where
  "ImageResponse_of d =
     (case tags d of
        TagsStr s \<Rightarrow> Inl ValidationError
      | TagsNone \<Rightarrow> Inr
          \<lparr> r_image_id = image_id d, r_created_at = created_at d, r_user_id = user_id d,
            r_title = title d, r_description = description d, r_tags = None,
            r_file_name = file_name d, r_file_size = file_size d,
            r_content_type = content_type d, r_width = width d, r_height = height d,
            r_format = format d, r_download_url = None, r_thumbnail_url = None \<rparr>
      | TagsList ts \<Rightarrow> Inr
          \<lparr> r_image_id = image_id d, r_created_at = created_at d, r_user_id = user_id d,
            r_title = title d, r_description = description d, r_tags = Some ts,
            r_file_name = file_name d, r_file_size = file_size d,
            r_content_type = content_type d, r_width = width d, r_height = height d,
            r_format = format d, r_download_url = None, r_thumbnail_url = None \<rparr>)"

definition opt_str :: "string option \<Rightarrow> pyval" where
  "opt_str v = (case v of None \<Rightarrow> PNone | Some s \<Rightarrow> PStr s)"

text \<open>\<open>ImageResponse.model_dump()\<close>: a dictionary with the fields of the model as keys.\<close>

definition model_dump :: "ImageResponse \<Rightarrow> (string \<times> pyval) list" where
  "model_dump r =
     [ (''image_id'', PStr (r_image_id r)),
       (''created_at'', PStr (r_created_at r)),
       (''user_id'', PStr (r_user_id r)),
       (''title'', opt_str (r_title r)),
       (''description'', opt_str (r_description r)),
       (''tags'', (case r_tags r of None \<Rightarrow> PNone | Some ts \<Rightarrow> PList (map PStr ts))),
       (''file_name'', PStr (r_file_name r)),
       (''file_size'', PInt (r_file_size r)),
       (''content_type'', PStr (r_content_type r)),
       (''width'', PInt (r_width r)),
       (''height'', PInt (r_height r)),
       (''format'', PStr (r_format r)),
       (''download_url'', opt_str (r_download_url r)),
       (''thumbnail_url'', opt_str (r_thumbnail_url r)) ]"


section \<open>The world outside the repository\<close>

text \<open>
  The object store and the metadata table are state. A call of boto3 returns, raises
  \<open>ClientError\<close> or raises something else; which of the three happens is decided by a
  schedule of faults that the calls consume in order (an empty schedule means no fault).
  Every call is logged with its outcome.
\<close>

datatype fault = NoFault | RaiseClientError | RaiseOther

text \<open>The keyword arguments of the two paging reads of the table.\<close>

record query_kwargs =
  q_user_id :: string
  q_Limit :: int
  q_ExclusiveStartKey :: "pyval option"

record scan_kwargs =
  sc_Limit :: int
  sc_ExclusiveStartKey :: "pyval option"
  sc_filter_user_id :: "string option"
  sc_filter_tags :: "string option"

datatype attr_update = Set_is_deleted bool | Set_updated_at string

datatype call =
    PutObject string
  | DeleteObject string
  | GeneratePresignedUrl string int
  | PutItem image_data
  | QueryById string
  | QueryUserIndex query_kwargs
  | Scan scan_kwargs
  | UpdateItem string string "attr_update list"

type_synonym bytes = "8 word list"

record world =
  bucket :: "(string \<times> bytes \<times> string) list"
  table :: "image_data list"
  faults :: "fault list"
  calls :: "(call \<times> fault) list"

text \<open>What a paging read gives back: the items, the last evaluated key and the count.\<close>

record page =
  items :: "image_data list"
  last_evaluated_key :: pyval
  count :: int

text \<open>
  What the code takes from outside the repository and what this theory does not define:
  Python's \<open>base64\<close>, \<open>json\<close> and \<open>str\<close>/\<open>bytes\<close> codecs, the URL that presigning yields,
  and the page that the table's \<open>query\<close> on the user index and its \<open>scan\<close> select.
\<close>

record env =
  b64encode :: "bytes \<Rightarrow> bytes"
  b64decode :: "string \<Rightarrow> exn + bytes"
  str_encode :: "string \<Rightarrow> bytes"
  bytes_decode :: "bytes \<Rightarrow> exn + string"
  json_dumps :: "pyval \<Rightarrow> exn + string"
  json_loads :: "string \<Rightarrow> exn + pyval"
  presigned_url :: "string \<Rightarrow> int \<Rightarrow> string"
  query_user_index :: "image_data list \<Rightarrow> query_kwargs \<Rightarrow> page"
  scan_table :: "image_data list \<Rightarrow> scan_kwargs \<Rightarrow> page"

definition boto_call :: "call \<Rightarrow> world \<Rightarrow> fault \<times> world" where
  "boto_call c w =
     (case faults w of
        [] \<Rightarrow> (NoFault, w\<lparr>calls := calls w @ [(c, NoFault)]\<rparr>)
      | f # fs \<Rightarrow> (f, w\<lparr>faults := fs, calls := calls w @ [(c, f)]\<rparr>))"


section \<open>Object store gateway (src/utils/s3_client.py)\<close>

text \<open>
  Each gateway method wraps one boto3 call in \<open>try ... except ClientError\<close>: a
  \<open>ClientError\<close> becomes the failure value (\<open>False\<close> or \<open>None\<close>), any other exception
  leaves the method (\<open>Inl\<close>).
\<close>

definition put_object :: "string \<Rightarrow> bytes \<times> string \<Rightarrow> (string \<times> bytes \<times> string) list
    \<Rightarrow> (string \<times> bytes \<times> string) list" where
  "put_object key obj b = (key, obj) # filter (\<lambda>kv. fst kv \<noteq> key) b"

definition s3_upload_image :: "world \<Rightarrow> bytes \<Rightarrow> string \<Rightarrow> string \<Rightarrow> (exn + bool) \<times> world" where
  "s3_upload_image w file_content key ctype =
     (case boto_call (PutObject key) w of
        (NoFault, w1) \<Rightarrow>
          (Inr True, w1\<lparr>bucket := put_object key (file_content, ctype) (bucket w1)\<rparr>)
      | (RaiseClientError, w1) \<Rightarrow> (Inr False, w1)
      | (RaiseOther, w1) \<Rightarrow> (Inl OtherError, w1))"

definition s3_delete_image :: "world \<Rightarrow> string \<Rightarrow> (exn + bool) \<times> world" where
  "s3_delete_image w key =
     (case boto_call (DeleteObject key) w of
        (NoFault, w1) \<Rightarrow>
          (Inr True, w1\<lparr>bucket := filter (\<lambda>kv. fst kv \<noteq> key) (bucket w1)\<rparr>)
      | (RaiseClientError, w1) \<Rightarrow> (Inr False, w1)
      | (RaiseOther, w1) \<Rightarrow> (Inl OtherError, w1))"

text \<open>\<open>generate_presigned_url\<close> returns the URL, or \<open>None\<close> on \<open>ClientError\<close>.\<close>

definition s3_generate_presigned_url ::
  "env \<Rightarrow> world \<Rightarrow> string \<Rightarrow> int \<Rightarrow> (exn + string option) \<times> world" where
  "s3_generate_presigned_url e w key expiration =
     (case boto_call (GeneratePresignedUrl key expiration) w of
        (NoFault, w1) \<Rightarrow> (Inr (Some (presigned_url e key expiration)), w1)
      | (RaiseClientError, w1) \<Rightarrow> (Inr None, w1)
      | (RaiseOther, w1) \<Rightarrow> (Inl OtherError, w1))"


section \<open>Metadata store gateway (src/utils/dynamodb_client.py)\<close>

text \<open>
  The table is the list of its items; an item is identified by \<open>image_id\<close> and
  \<open>created_at\<close>. \<open>put_item\<close> replaces the item under the same key or adds the item.
\<close>

definition same_key :: "string \<Rightarrow> string \<Rightarrow> image_data \<Rightarrow> bool" where
  "same_key iid cat d = (image_id d = iid \<and> created_at d = cat)"

definition put_item :: "image_data \<Rightarrow> image_data list \<Rightarrow> image_data list" where
  "put_item d t =
     (if list_ex (same_key (image_id d) (created_at d)) t
      then map (\<lambda>x. if same_key (image_id d) (created_at d) x then d else x) t
      else t @ [d])"

definition ddb_put_image_metadata :: "world \<Rightarrow> image_data \<Rightarrow> (exn + bool) \<times> world" where
  "ddb_put_image_metadata w d =
     (case boto_call (PutItem d) w of
        (NoFault, w1) \<Rightarrow> (Inr True, w1\<lparr>table := put_item d (table w1)\<rparr>)
      | (RaiseClientError, w1) \<Rightarrow> (Inr False, w1)
      | (RaiseOther, w1) \<Rightarrow> (Inl OtherError, w1))"

text \<open>
  \<open>get_image_metadata_by_id\<close>: the query on the partition key gives the items of that
  \<open>image_id\<close>; the method returns \<open>items[0] if items else None\<close>.
\<close>

definition ddb_get_image_metadata_by_id ::
  "world \<Rightarrow> string \<Rightarrow> (exn + image_data option) \<times> world" where
  "ddb_get_image_metadata_by_id w iid =
     (case boto_call (QueryById iid) w of
        (NoFault, w1) \<Rightarrow>
          (Inr (case filter (\<lambda>d. image_id d = iid) (table w1) of
                  [] \<Rightarrow> None
                | d # _ \<Rightarrow> Some d), w1)
      | (RaiseClientError, w1) \<Rightarrow> (Inr None, w1)
      | (RaiseOther, w1) \<Rightarrow> (Inl OtherError, w1))"

definition empty_page :: page where
  "empty_page = \<lparr> items = [], last_evaluated_key = PNone, count = 0 \<rparr>"

text \<open>
  \<open>DynamoDBClient.list_images\<close>: a scan; the start key and the two filters enter the
  keyword arguments only when they are truthy.
\<close>

definition ddb_list_images ::
  "env \<Rightarrow> world \<Rightarrow> int \<Rightarrow> pyval \<Rightarrow> string option \<Rightarrow> string option \<Rightarrow> (exn + page) \<times> world" where
  "ddb_list_images e w limit lek uid tgs =
     (let kwargs = \<lparr> sc_Limit = limit,
                      sc_ExclusiveStartKey = (if truthy lek then Some lek else None),
                      sc_filter_user_id = (case uid of None \<Rightarrow> None
                                           | Some u \<Rightarrow> if u \<noteq> [] then Some u else None),
                      sc_filter_tags = (case tgs of None \<Rightarrow> None
                                        | Some t \<Rightarrow> if t \<noteq> [] then Some t else None) \<rparr>
      in case boto_call (Scan kwargs) w of
           (NoFault, w1) \<Rightarrow> (Inr (scan_table e (table w1) kwargs), w1)
         | (RaiseClientError, w1) \<Rightarrow> (Inr empty_page, w1)
         | (RaiseOther, w1) \<Rightarrow> (Inl OtherError, w1))"

text \<open>\<open>query_images_by_user\<close>: a query on the user index; it takes no tag.\<close>

definition ddb_query_images_by_user ::
  "env \<Rightarrow> world \<Rightarrow> string \<Rightarrow> int \<Rightarrow> pyval \<Rightarrow> (exn + page) \<times> world" where
  "ddb_query_images_by_user e w uid limit lek =
     (let kwargs = \<lparr> q_user_id = uid,
                      q_Limit = limit,
                      q_ExclusiveStartKey = (if truthy lek then Some lek else None) \<rparr>
      in case boto_call (QueryUserIndex kwargs) w of
           (NoFault, w1) \<Rightarrow> (Inr (query_user_index e (table w1) kwargs), w1)
         | (RaiseClientError, w1) \<Rightarrow> (Inr empty_page, w1)
         | (RaiseOther, w1) \<Rightarrow> (Inl OtherError, w1))"

text \<open>
  \<open>update_image_metadata\<close>: a \<open>SET\<close> of the given attributes on the item at the exact key.
  The service only updates at a key it has just read; where no item has the key, the
  table of the model stays as it is.
\<close>

fun apply_update :: "attr_update \<Rightarrow> image_data \<Rightarrow> image_data" where
  "apply_update (Set_is_deleted b) d = d\<lparr>is_deleted := b\<rparr>"
| "apply_update (Set_updated_at t) d = d\<lparr>updated_at := Some t\<rparr>"

definition update_item :: "string \<Rightarrow> string \<Rightarrow> attr_update list \<Rightarrow> image_data list
    \<Rightarrow> image_data list" where
  "update_item iid cat updates t =
     map (\<lambda>d. if same_key iid cat d then fold apply_update updates d else d) t"

definition ddb_update_image_metadata ::
  "world \<Rightarrow> string \<Rightarrow> string \<Rightarrow> attr_update list \<Rightarrow> (exn + bool) \<times> world" where
  "ddb_update_image_metadata w iid cat updates =
     (case boto_call (UpdateItem iid cat updates) w of
        (NoFault, w1) \<Rightarrow> (Inr True, w1\<lparr>table := update_item iid cat updates (table w1)\<rparr>)
      | (RaiseClientError, w1) \<Rightarrow> (Inr False, w1)
      | (RaiseOther, w1) \<Rightarrow> (Inl OtherError, w1))"


section \<open>Image service (src/services/image_service.py)\<close>

text \<open>The result dictionaries: \<open>{'success': True, ...}\<close> or \<open>{'success': False, 'error': e}\<close>.\<close>

datatype 'a result = Success 'a | Failure string

text \<open>
  \<open>_convert_dynamo_to_api_format\<close>: a truthy string under \<open>'tags'\<close> becomes the list of its
  stripped, non-blank pieces (the empty list when the string is blank); anything else,
  the empty string too, stays as it is.
\<close>

definition convert_dynamo_to_api_format :: "image_data \<Rightarrow> image_data" where
  "convert_dynamo_to_api_format dynamo_data =
     (case tags dynamo_data of
        TagsStr s \<Rightarrow>
          if s \<noteq> [] then
            (if strip s \<noteq> []
             then dynamo_data\<lparr>tags :=
                    TagsList (map strip (filter (\<lambda>tag. strip tag \<noteq> []) (split CHR '','' s)))\<rparr>
             else dynamo_data\<lparr>tags := TagsList []\<rparr>)
          else dynamo_data
      | _ \<Rightarrow> dynamo_data)"

text \<open>
  The dictionary that \<open>upload_image\<close> stores: the dump of the metadata with the tags
  joined by commas, or the empty string when there are none.
\<close>

definition to_dynamo_data :: "ImageMetadata \<Rightarrow> image_data" where
  "to_dynamo_data image_metadata =
     (let dynamo_data = metadata_model_dump image_metadata
      in case tags dynamo_data of
           TagsList ts \<Rightarrow>
             if ts \<noteq> [] then dynamo_data\<lparr>tags := TagsStr (join '','' ts)\<rparr>
             else dynamo_data\<lparr>tags := TagsStr []\<rparr>
         | _ \<Rightarrow> dynamo_data\<lparr>tags := TagsStr []\<rparr>)"

definition upload_image ::
  "world \<Rightarrow> fresh \<Rightarrow> pil_outcome \<Rightarrow> bytes \<Rightarrow> string \<Rightarrow> ImageUploadRequest
     \<Rightarrow> (string \<times> string) result \<times> world" where
  "upload_image w fr opened file_content filename upload_request =
     (if \<not> validate_file_extension filename
        then (Failure ''Invalid file extension. Allowed: jpg, jpeg, png, gif, webp'', w)
      else if \<not> validate_file_size (int (length file_content))
        then (Failure ''File size must be between 1KB and 10MB'', w)
      else case validate_image_content opened of
        Invalid err \<Rightarrow> (Failure err, w)
      | Valid (wd, ht, fmt) \<Rightarrow>
      (case validate_title (req_title upload_request) of
        Invalid err \<Rightarrow> (Failure err, w)
      | Valid _ \<Rightarrow>
      (case validate_description (req_description upload_request) of
        Invalid err \<Rightarrow> (Failure err, w)
      | Valid _ \<Rightarrow>
      (case validate_tags (req_tags upload_request) of
        Invalid err \<Rightarrow> (Failure err, w)
      | Valid _ \<Rightarrow>
      (case validate_user_id (req_user_id upload_request) of
        Invalid err \<Rightarrow> (Failure err, w)
      | Valid _ \<Rightarrow>
      (let image_metadata =
             create_new fr upload_request filename (int (length file_content))
               (''image/'' @ fmt) wd ht fmt
       in case s3_upload_image w file_content (md_s3_key image_metadata)
                 (md_content_type image_metadata) of
            (Inl ex, w1) \<Rightarrow> (Failure ''Internal server error during upload'', w1)
          | (Inr False, w1) \<Rightarrow> (Failure ''Failed to upload image to storage'', w1)
          | (Inr True, w1) \<Rightarrow>
              (case ddb_put_image_metadata w1 (to_dynamo_data image_metadata) of
                 (Inl ex, w2) \<Rightarrow> (Failure ''Internal server error during upload'', w2)
               | (Inr False, w2) \<Rightarrow>
                   (case s3_delete_image w2 (md_s3_key image_metadata) of
                      (Inl ex, w3) \<Rightarrow> (Failure ''Internal server error during upload'', w3)
                    | (Inr _, w3) \<Rightarrow> (Failure ''Failed to store image metadata'', w3))
               | (Inr True, w2) \<Rightarrow>
                   (Success (md_image_id image_metadata, ''Image uploaded successfully''),
                    w2))))))))"

definition get_image ::
  "env \<Rightarrow> world \<Rightarrow> string \<Rightarrow> bool \<Rightarrow> (string \<times> pyval) list result \<times> world" where
  "get_image e w iid include_download_url =
     (case ddb_get_image_metadata_by_id w iid of
        (Inl ex, w1) \<Rightarrow> (Failure ''Internal server error'', w1)
      | (Inr None, w1) \<Rightarrow> (Failure ''Image not found'', w1)
      | (Inr (Some metadata), w1) \<Rightarrow>
          if is_deleted metadata then (Failure ''Image not found'', w1)
          else (case ImageResponse_of (convert_dynamo_to_api_format metadata) of
                  Inl ex \<Rightarrow> (Failure ''Internal server error'', w1)
                | Inr image_response \<Rightarrow>
                    if include_download_url then
                      (case s3_generate_presigned_url e w1 (s3_key metadata) 3600 of
                         (Inl ex, w2) \<Rightarrow> (Failure ''Internal server error'', w2)
                       | (Inr None, w2) \<Rightarrow> (Success (model_dump image_response), w2)
                       | (Inr (Some url), w2) \<Rightarrow>
                           if url \<noteq> []
                           then (Success (model_dump
                                   (image_response\<lparr>r_download_url := Some url\<rparr>)), w2)
                           else (Success (model_dump image_response), w2))
                    else (Success (model_dump image_response), w1)))"

text \<open>The page token codec, as \<open>list_images\<close> writes it inline.\<close>

definition decode_page_token :: "env \<Rightarrow> string \<Rightarrow> exn + pyval" where
  "decode_page_token e page_token =
     (case b64decode e page_token of
        Inl ex \<Rightarrow> Inl ex
      | Inr raw \<Rightarrow>
          (case bytes_decode e raw of
             Inl ex \<Rightarrow> Inl ex
           | Inr text \<Rightarrow> json_loads e text))"

definition encode_page_token :: "env \<Rightarrow> pyval \<Rightarrow> exn + string" where
  "encode_page_token e key =
     (case json_dumps e key of
        Inl ex \<Rightarrow> Inl ex
      | Inr text \<Rightarrow> bytes_decode e (b64encode e (str_encode e text)))"

text \<open>
  The loop of \<open>list_images\<close> over the active images: convert, build the response, presign,
  append. An exception ends the loop.
\<close>

fun image_responses :: "env \<Rightarrow> world \<Rightarrow> image_data list \<Rightarrow> (exn + ImageResponse list) \<times> world" where
  "image_responses e w [] = (Inr [], w)"
| "image_responses e w (img # rest) =
     (case ImageResponse_of (convert_dynamo_to_api_format img) of
        Inl ex \<Rightarrow> (Inl ex, w)
      | Inr image_response \<Rightarrow>
          (case s3_generate_presigned_url e w (s3_key img) 3600 of
             (Inl ex, w1) \<Rightarrow> (Inl ex, w1)
           | (Inr download_url, w1) \<Rightarrow>
               (let r = (case download_url of
                           None \<Rightarrow> image_response
                         | Some url \<Rightarrow> if url \<noteq> []
                                       then image_response\<lparr>r_download_url := Some url\<rparr>
                                       else image_response)
                in case image_responses e w1 rest of
                     (Inl ex, w2) \<Rightarrow> (Inl ex, w2)
                   | (Inr rs, w2) \<Rightarrow> (Inr (r # rs), w2))))"

record image_list =
  images :: "(string \<times> pyval) list list"
  total_count :: nat
  next_page_token :: "string option"
  has_more :: bool

definition list_images ::
  "env \<Rightarrow> world \<Rightarrow> int \<Rightarrow> string option \<Rightarrow> string option \<Rightarrow> string option
     \<Rightarrow> image_list result \<times> world" where
  "list_images e w limit page_token uid tgs =
     (case (case page_token of
              None \<Rightarrow> Inr PNone
            | Some tok \<Rightarrow> if tok \<noteq> [] then decode_page_token e tok else Inr PNone) of
        Inl ex \<Rightarrow> (Failure ''Invalid page token'', w)
      | Inr lek \<Rightarrow>
          (case (case uid of
                   None \<Rightarrow> ddb_list_images e w limit lek uid tgs
                 | Some u \<Rightarrow> if u \<noteq> [] then ddb_query_images_by_user e w u limit lek
                             else ddb_list_images e w limit lek uid tgs) of
             (Inl ex, w1) \<Rightarrow> (Failure ''Internal server error'', w1)
           | (Inr result, w1) \<Rightarrow>
               (let active_images = filter (\<lambda>img. \<not> is_deleted img) (items result)
                in case image_responses e w1 active_images of
                     (Inl ex, w2) \<Rightarrow> (Failure ''Internal server error'', w2)
                   | (Inr rs, w2) \<Rightarrow>
                       (case (if truthy (last_evaluated_key result)
                              then map_sum id Some (encode_page_token e (last_evaluated_key result))
                              else Inr None) of
                          Inl ex \<Rightarrow> (Failure ''Internal server error'', w2)
                        | Inr token \<Rightarrow>
                            (Success \<lparr> images = map model_dump rs,
                                       total_count = length rs,
                                       next_page_token = token,
                                       has_more = (last_evaluated_key result \<noteq> PNone) \<rparr>,
                             w2)))))"

text \<open>\<open>delete_image\<close>; the reading of the clock for \<open>updated_at\<close> is an input.\<close>

definition delete_image ::
  "world \<Rightarrow> string \<Rightarrow> string \<Rightarrow> string \<Rightarrow> (string \<times> string) result \<times> world" where
  "delete_image w now iid uid =
     (case ddb_get_image_metadata_by_id w iid of
        (Inl ex, w1) \<Rightarrow> (Failure ''Internal server error'', w1)
      | (Inr None, w1) \<Rightarrow> (Failure ''Image not found'', w1)
      | (Inr (Some metadata), w1) \<Rightarrow>
          if user_id metadata \<noteq> uid then (Failure ''Unauthorized to delete this image'', w1)
          else if is_deleted metadata then (Failure ''Image already deleted'', w1)
          else (case ddb_update_image_metadata w1 iid (created_at metadata)
                       [Set_is_deleted True, Set_updated_at now] of
                  (Inl ex, w2) \<Rightarrow> (Failure ''Internal server error'', w2)
                | (Inr False, w2) \<Rightarrow> (Failure ''Failed to delete image'', w2)
                | (Inr True, w2) \<Rightarrow> (Success (''Image deleted successfully'', iid), w2)))"


section \<open>HTTP layer (src/main.py)\<close>

text \<open>An endpoint returns its payload (status 200) or raises \<open>HTTPException\<close>.\<close>

datatype 'a http = Response 'a | HTTPException int string

text \<open>\<open>sub in s\<close> on strings.\<close>

fun contains :: "string \<Rightarrow> string \<Rightarrow> bool" where
  "contains sub [] = (sub = [])"
| "contains sub (c # cs) = (take (length sub) (c # cs) = sub \<or> contains sub cs)"

record download_link =
  dl_image_id :: string
  dl_download_url :: string
  dl_expires_in :: int
  dl_content_type :: pyval
  dl_file_size :: pyval

text \<open>
  \<open>get_image_download_url\<close>. The arguments of the presigning call are evaluated first,
  so a \<open>KeyError\<close> of \<open>image_data["s3_key"]\<close> is raised before any call; it is no
  \<open>HTTPException\<close> and ends in the handler for \<open>Exception\<close>, status 500.
\<close>

definition get_image_download_url ::
  "env \<Rightarrow> world \<Rightarrow> string \<Rightarrow> int \<Rightarrow> download_link http \<times> world" where
  "get_image_download_url e w iid expires_in =
     (case get_image e w iid False of
        (Failure err, w1) \<Rightarrow>
          if contains ''not found'' (lower err) then (HTTPException 404 err, w1)
          else (HTTPException 400 err, w1)
      | (Success image_data, w1) \<Rightarrow>
          (case getitem image_data ''s3_key'' of
             Inl ex \<Rightarrow> (HTTPException 500 ''Internal server error'', w1)
           | Inr (PStr key) \<Rightarrow>
               (case s3_generate_presigned_url e w1 key expires_in of
                  (Inl ex, w2) \<Rightarrow> (HTTPException 500 ''Internal server error'', w2)
                | (Inr None, w2) \<Rightarrow> (HTTPException 500 ''Failed to generate download URL'', w2)
                | (Inr (Some url), w2) \<Rightarrow>
                    if url = [] then (HTTPException 500 ''Failed to generate download URL'', w2)
                    else (case getitem image_data ''content_type'' of
                            Inl ex \<Rightarrow> (HTTPException 500 ''Internal server error'', w2)
                          | Inr ctype \<Rightarrow>
                              (case getitem image_data ''file_size'' of
                                 Inl ex \<Rightarrow> (HTTPException 500 ''Internal server error'', w2)
                               | Inr fsize \<Rightarrow>
                                   (Response \<lparr> dl_image_id = iid,
                                               dl_download_url = url,
                                               dl_expires_in = expires_in,
                                               dl_content_type = ctype,
                                               dl_file_size = fsize \<rparr>, w2))))
           | Inr other \<Rightarrow> (HTTPException 500 ''Internal server error'', w1)))"


section \<open>Python's UTF-8, base64 and json\<close>

text \<open>
  UTF-8 of the code points below U+0100, both ways. A byte sequence that starts a code
  point above U+00FF (lead bytes C4 to F4) is outside the strings of this theory.
\<close>

fun utf8_encode :: "string \<Rightarrow> bytes" where
  "utf8_encode [] = []"
| "utf8_encode (c # cs) =
     (let n = (of_char c :: nat)
      in if n < 128 then of_nat n # utf8_encode cs
         else of_nat (192 + n div 64) # of_nat (128 + n mod 64) # utf8_encode cs)"

fun utf8_decode :: "nat list \<Rightarrow> exn + string" where
  "utf8_decode [] = Inr []"
| "utf8_decode [b] =
     (if b < 128 then Inr [char_of b]
      else if 196 \<le> b \<and> b \<le> 244 then Inl Unmodelled
      else Inl DecodeError)"
| "utf8_decode (b # b2 # bs) =
     (if b < 128 then
        (case utf8_decode (b2 # bs) of Inl ex \<Rightarrow> Inl ex | Inr s \<Rightarrow> Inr (char_of b # s))
      else if (b = 194 \<or> b = 195) \<and> 128 \<le> b2 \<and> b2 < 192 then
        (case utf8_decode bs of
           Inl ex \<Rightarrow> Inl ex
         | Inr s \<Rightarrow> Inr (char_of ((b - 192) * 64 + (b2 - 128)) # s))
      else if 196 \<le> b \<and> b \<le> 244 then Inl Unmodelled
      else Inl DecodeError)"

text \<open>Base64 encoding with the standard alphabet and padding.\<close>

definition b64_alphabet :: string where
  "b64_alphabet = ''ABCDEFGHIJKLMNOPQRSTUVWXYZabcdefghijklmnopqrstuvwxyz0123456789+/''"

fun b64_groups :: "nat list \<Rightarrow> string" where
  "b64_groups [] = []"
| "b64_groups [a] =
     [b64_alphabet ! (a div 4), b64_alphabet ! ((a mod 4) * 16), CHR ''='', CHR ''='']"
| "b64_groups [a, b] =
     [b64_alphabet ! (a div 4), b64_alphabet ! ((a mod 4) * 16 + b div 16),
      b64_alphabet ! ((b mod 16) * 4), CHR ''='']"
| "b64_groups (a # b # c # rest) =
     [b64_alphabet ! (a div 4), b64_alphabet ! ((a mod 4) * 16 + b div 16),
      b64_alphabet ! ((b mod 16) * 4 + c div 64), b64_alphabet ! (c mod 64)]
     @ b64_groups rest"

text \<open>
  \<open>base64.b64decode(s)\<close> with a string argument and \<open>validate=False\<close>: a character above
  U+007F raises; otherwise \<open>binascii.a2b_base64\<close> reads the characters of the alphabet in
  groups of four and skips every other character; padding \<open>=\<close> ends the input once a
  group of two or three characters is padded to four, and is skipped elsewhere; input
  that ends inside a group raises.
\<close>

definition b64_value :: "char \<Rightarrow> nat option" where
  "b64_value c = map_of (zip b64_alphabet [0..<64]) c"

fun b64_scan :: "nat \<Rightarrow> nat \<Rightarrow> nat \<Rightarrow> string \<Rightarrow> exn + nat list" where
  "b64_scan quad_pos leftchar pads [] = (if quad_pos \<noteq> 0 then Inl DecodeError else Inr [])"
| "b64_scan quad_pos leftchar pads (c # cs) =
     (if c = CHR ''='' then
        (if 2 \<le> quad_pos \<and> 4 \<le> quad_pos + (pads + 1) then Inr []
         else b64_scan quad_pos leftchar (if 2 \<le> quad_pos then pads + 1 else pads) cs)
      else
        (case b64_value c of
           None \<Rightarrow> b64_scan quad_pos leftchar pads cs
         | Some v \<Rightarrow>
             if quad_pos = 0 then b64_scan 1 v 0 cs
             else if quad_pos = 1 then
               map_sum id ((#) (leftchar * 4 + v div 16)) (b64_scan 2 (v mod 16) 0 cs)
             else if quad_pos = 2 then
               map_sum id ((#) (leftchar * 16 + v div 4)) (b64_scan 3 (v mod 4) 0 cs)
             else
               map_sum id ((#) (leftchar * 64 + v)) (b64_scan 0 0 0 cs)))"

definition py_b64decode :: "string \<Rightarrow> exn + bytes" where
  "py_b64decode s =
     (if list_ex (\<lambda>c. 128 \<le> (of_char c :: nat)) s then Inl DecodeError
      else map_sum id (map of_nat) (b64_scan 0 0 0 s))"

text \<open>
  \<open>json.dumps(v)\<close> with its defaults: separators \<open>", "\<close> and \<open>": "\<close>, and every character
  outside the printable ASCII range written as an escape.
\<close>

definition hex_digit :: "nat \<Rightarrow> char" where
  "hex_digit d = ''0123456789abcdef'' ! d"

definition json_escape_char :: "char \<Rightarrow> string" where
  "json_escape_char c =
     (let n = (of_char c :: nat)
      in if n = 0x22 then [CHR 0x5C, CHR 0x22]
         else if n = 0x5C then [CHR 0x5C, CHR 0x5C]
         else if n = 0x0A then [CHR 0x5C, CHR ''n'']
         else if n = 0x0D then [CHR 0x5C, CHR ''r'']
         else if n = 0x09 then [CHR 0x5C, CHR ''t'']
         else if n = 0x08 then [CHR 0x5C, CHR ''b'']
         else if n = 0x0C then [CHR 0x5C, CHR ''f'']
         else if 32 \<le> n \<and> n \<le> 126 then [c]
         else [CHR 0x5C, CHR ''u'', CHR ''0'', CHR ''0'', hex_digit (n div 16),
               hex_digit (n mod 16)])"

definition json_string :: "string \<Rightarrow> string" where
  "json_string s = CHR 0x22 # concat (map json_escape_char s) @ [CHR 0x22]"

fun digits_of :: "nat \<Rightarrow> string" where
  "digits_of n =
     (if n < 10 then [char_of (48 + n)]
      else digits_of (n div 10) @ [char_of (48 + n mod 10)])"

definition json_int :: "int \<Rightarrow> string" where
  "json_int i = (if i < 0 then CHR ''-'' # digits_of (nat (- i)) else digits_of (nat i))"

fun json_text :: "pyval \<Rightarrow> string"
  and json_texts :: "pyval list \<Rightarrow> string list"
  and json_items :: "(string \<times> pyval) list \<Rightarrow> string list" where
  "json_text PNone = ''null''"
| "json_text (PBool b) = (if b then ''true'' else ''false'')"
| "json_text (PInt i) = json_int i"
| "json_text (PStr s) = json_string s"
| "json_text (PList xs) = ''['' @ join '', '' (json_texts xs) @ '']''"
| "json_text (PDict kvs) = ''{'' @ join '', '' (json_items kvs) @ ''}''"
| "json_texts [] = []"
| "json_texts (x # xs) = json_text x # json_texts xs"
| "json_items [] = []"
| "json_items ((k, v) # kvs) = (json_string k @ '': '' @ json_text v) # json_items kvs"

text \<open>
  The values on which the line above is all that \<open>json.dumps\<close> does: nesting of at most
  the given depth, integers of at most 4300 digits, and no key twice in a dictionary.
\<close>

fun json_within :: "nat \<Rightarrow> pyval \<Rightarrow> bool"
  and json_within_list :: "nat \<Rightarrow> pyval list \<Rightarrow> bool"
  and json_within_items :: "nat \<Rightarrow> (string \<times> pyval) list \<Rightarrow> bool" where
  "json_within d PNone = True"
| "json_within d (PBool b) = True"
| "json_within d (PInt i) = (length (json_int i) \<le> 4300)"
| "json_within d (PStr s) = True"
| "json_within d (PList xs) = (case d of 0 \<Rightarrow> False | Suc d' \<Rightarrow> json_within_list d' xs)"
| "json_within d (PDict kvs) =
     (case d of 0 \<Rightarrow> False | Suc d' \<Rightarrow> distinct (map fst kvs) \<and> json_within_items d' kvs)"
| "json_within_list d [] = True"
| "json_within_list d (x # xs) = (json_within d x \<and> json_within_list d xs)"
| "json_within_items d [] = True"
| "json_within_items d ((k, v) # kvs) = (json_within d v \<and> json_within_items d kvs)"

definition py_json_dumps :: "pyval \<Rightarrow> exn + string" where
  "py_json_dumps v = (if json_within 64 v then Inr (json_text v) else Inl Unmodelled)"

text \<open>
  \<open>json.loads(s)\<close> with its defaults, on a string: white space is space, tab, line feed
  and carriage return; strings are read strictly (no raw control character); a key met
  twice keeps its first place and takes the last value; what follows the value must be
  white space only.
\<close>

definition json_ws :: "char \<Rightarrow> bool" where
  "json_ws c \<longleftrightarrow> c = CHR '' '' \<or> c = CHR 0x09 \<or> c = CHR 0x0A \<or> c = CHR 0x0D"

definition skip_ws :: "string \<Rightarrow> string" where
  "skip_ws s = dropWhile json_ws s"

definition hex_value :: "char \<Rightarrow> nat option" where
  "hex_value c =
     (let n = (of_char c :: nat)
      in if 48 \<le> n \<and> n \<le> 57 then Some (n - 48)
         else if 97 \<le> n \<and> n \<le> 102 then Some (n - 87)
         else if 65 \<le> n \<and> n \<le> 70 then Some (n - 55)
         else None)"

definition json_unescape :: "char \<Rightarrow> char option" where
  "json_unescape e =
     (if e = CHR 0x22 \<or> e = CHR 0x5C \<or> e = CHR ''/'' then Some e
      else if e = CHR ''b'' then Some (CHR 0x08)
      else if e = CHR ''f'' then Some (CHR 0x0C)
      else if e = CHR ''n'' then Some (CHR 0x0A)
      else if e = CHR ''r'' then Some (CHR 0x0D)
      else if e = CHR ''t'' then Some (CHR 0x09)
      else None)"

definition scanned :: "char \<Rightarrow> exn + string \<times> string \<Rightarrow> exn + string \<times> string" where
  "scanned c r = map_sum id (\<lambda>(s, rest). (c # s, rest)) r"

text \<open>\<open>scan_string\<close> reads a string literal after its opening quote.\<close>

fun scan_string :: "string \<Rightarrow> exn + string \<times> string" where
  "scan_string [] = Inl DecodeError"
| "scan_string (c # cs) =
     (if c = CHR 0x22 then Inr ([], cs)
      else if c = CHR 0x5C then
        (case cs of
           [] \<Rightarrow> Inl DecodeError
         | e # r \<Rightarrow>
             if e = CHR ''u'' then
               (case r of
                  h1 # h2 # h3 # h4 # r' \<Rightarrow>
                    (case (hex_value h1, hex_value h2, hex_value h3, hex_value h4) of
                       (Some a, Some b, Some x, Some y) \<Rightarrow>
                         if a = 0 \<and> b = 0 then scanned (char_of (x * 16 + y)) (scan_string r')
                         else Inl Unmodelled
                     | _ \<Rightarrow> Inl DecodeError)
                | _ \<Rightarrow> Inl DecodeError)
             else
               (case json_unescape e of
                  None \<Rightarrow> Inl DecodeError
                | Some x \<Rightarrow> scanned x (scan_string r)))
      else if (of_char c :: nat) < 32 then Inl DecodeError
      else scanned c (scan_string cs))"

definition is_digit :: "char \<Rightarrow> bool" where
  "is_digit c \<longleftrightarrow> 48 \<le> (of_char c :: nat) \<and> (of_char c :: nat) \<le> 57"

definition nat_of_digits :: "string \<Rightarrow> nat" where
  "nat_of_digits ds = foldl (\<lambda>n c. 10 * n + (of_char c - 48)) 0 ds"

text \<open>Whether what follows the integer digits makes the number a float.\<close>

definition float_follows :: "string \<Rightarrow> bool" where
  "float_follows rest =
     (case rest of
        [] \<Rightarrow> False
      | c # r \<Rightarrow>
          if c = CHR ''.'' then (case r of [] \<Rightarrow> False | d # _ \<Rightarrow> is_digit d)
          else if c = CHR ''e'' \<or> c = CHR ''E'' then
            (case r of
               [] \<Rightarrow> False
             | sg # r2 \<Rightarrow>
                 if sg = CHR ''+'' \<or> sg = CHR ''-'' then
                   (case r2 of [] \<Rightarrow> False | d # _ \<Rightarrow> is_digit d)
                 else is_digit sg)
          else False)"

definition scan_number :: "string \<Rightarrow> exn + pyval \<times> string" where
  "scan_number s =
     (let neg = (take 1 s = ''-'');
          t = (if neg then drop 1 s else s)
      in case t of
           [] \<Rightarrow> Inl DecodeError
         | c # cs \<Rightarrow>
             if \<not> is_digit c then Inl DecodeError
             else
               (let ds = (if c = CHR ''0'' then [c] else takeWhile is_digit t);
                    rest = drop (length ds) t
                in if float_follows rest then Inl Unmodelled
                   else if 4300 < length ds then Inl Unmodelled
                   else Inr (PInt (if neg then - int (nat_of_digits ds)
                                   else int (nat_of_digits ds)), rest)))"

fun dict_set :: "string \<Rightarrow> pyval \<Rightarrow> (string \<times> pyval) list \<Rightarrow> (string \<times> pyval) list" where
  "dict_set k v [] = [(k, v)]"
| "dict_set k v ((k', v') # kvs) =
     (if k' = k then (k, v) # kvs else (k', v') # dict_set k v kvs)"

definition starts_with :: "string \<Rightarrow> string \<Rightarrow> bool" where
  "starts_with p s \<longleftrightarrow> take (length p) s = p"

text \<open>
  The scanner, in its three states: before a value, inside an object with the members
  read so far, inside an array with the elements read so far. The first argument bounds
  the number of steps and is started at twice the length of the text plus two; the third
  is the nesting still allowed.
\<close>

datatype scan_state = Value | Members "(string \<times> pyval) list" | Elements "pyval list"

primrec json_scan :: "nat \<Rightarrow> scan_state \<Rightarrow> nat \<Rightarrow> string \<Rightarrow> exn + pyval \<times> string" where
  "json_scan 0 st d s = Inl Unmodelled"
| "json_scan (Suc n) st d s =
     (case st of
        Value \<Rightarrow>
          (case s of
             [] \<Rightarrow> Inl DecodeError
           | c # cs \<Rightarrow>
               if c = CHR 0x22 then map_sum id (\<lambda>(x, rest). (PStr x, rest)) (scan_string cs)
               else if c = CHR ''{'' then
                 (if d = 0 then Inl Unmodelled
                  else if starts_with ''}'' (skip_ws cs) then Inr (PDict [], drop 1 (skip_ws cs))
                  else json_scan n (Members []) (d - 1) (skip_ws cs))
               else if c = CHR ''['' then
                 (if d = 0 then Inl Unmodelled
                  else if starts_with '']'' (skip_ws cs) then Inr (PList [], drop 1 (skip_ws cs))
                  else json_scan n (Elements []) (d - 1) (skip_ws cs))
               else if starts_with ''null'' s then Inr (PNone, drop 4 s)
               else if starts_with ''true'' s then Inr (PBool True, drop 4 s)
               else if starts_with ''false'' s then Inr (PBool False, drop 5 s)
               else if starts_with ''NaN'' s \<or> starts_with ''Infinity'' s
                       \<or> starts_with ''-Infinity'' s then Inl Unmodelled
               else scan_number s)
      | Members acc \<Rightarrow>
          (case s of
             [] \<Rightarrow> Inl DecodeError
           | q # s1 \<Rightarrow>
               if q \<noteq> CHR 0x22 then Inl DecodeError
               else
                 (case scan_string s1 of
                    Inl ex \<Rightarrow> Inl ex
                  | Inr (k, r) \<Rightarrow>
                      if \<not> starts_with '':'' (skip_ws r) then Inl DecodeError
                      else
                        (case json_scan n Value d (skip_ws (drop 1 (skip_ws r))) of
                           Inl ex \<Rightarrow> Inl ex
                         | Inr (v, r2) \<Rightarrow>
                             if starts_with ''}'' (skip_ws r2)
                             then Inr (PDict (dict_set k v acc), drop 1 (skip_ws r2))
                             else if starts_with '','' (skip_ws r2)
                             then json_scan n (Members (dict_set k v acc)) d
                                    (skip_ws (drop 1 (skip_ws r2)))
                             else Inl DecodeError)))
      | Elements acc \<Rightarrow>
          (case json_scan n Value d s of
             Inl ex \<Rightarrow> Inl ex
           | Inr (v, r) \<Rightarrow>
               if starts_with '']'' (skip_ws r) then Inr (PList (acc @ [v]), drop 1 (skip_ws r))
               else if starts_with '','' (skip_ws r)
               then json_scan n (Elements (acc @ [v])) d (skip_ws (drop 1 (skip_ws r)))
               else Inl DecodeError))"

definition py_json_loads :: "string \<Rightarrow> exn + pyval" where
  "py_json_loads s =
     (case json_scan (2 * length s + 2) Value 64 (skip_ws s) of
        Inl ex \<Rightarrow> Inl ex
      | Inr (v, rest) \<Rightarrow> if skip_ws rest = [] then Inr v else Inl DecodeError)"

text \<open>
  An environment with the library functions of the page token set to the definitions
  above: \<open>str.encode\<close> and \<open>bytes.decode\<close> as UTF-8, \<open>base64.b64encode\<close>,
  \<open>base64.b64decode\<close>, \<open>json.dumps\<close> and \<open>json.loads\<close>.
\<close>

definition with_python :: "env \<Rightarrow> env" where
  "with_python e =
     e\<lparr> b64encode := (\<lambda>b. map (\<lambda>c. of_nat (of_char c)) (b64_groups (map unat b))),
        b64decode := py_b64decode,
        str_encode := utf8_encode,
        bytes_decode := (\<lambda>b. utf8_decode (map unat b)),
        json_dumps := py_json_dumps,
        json_loads := py_json_loads \<rparr>"


section \<open>A small world for running the model\<close>

text \<open>
  Concrete items, a concrete table behaviour and recorded values of the Python library,
  used to evaluate the definitions above at concrete inputs.
\<close>

definition sample_image :: "string \<Rightarrow> string \<Rightarrow> string \<Rightarrow> bool \<Rightarrow> image_data" where
  "sample_image iid uid tgs deleted =
     \<lparr> image_id = iid,
       created_at = ''2023-01-01T00:00:00'',
       user_id = uid,
       title = None,
       description = None,
       tags = TagsStr tgs,
       file_name = iid @ ''.jpg'',
       file_size = 2048,
       content_type = ''image/jpeg'',
       width = 200,
       height = 200,
       format = ''jpeg'',
       s3_key = ''images/2023/01/'' @ iid @ ''.jpeg'',
       is_deleted = deleted,
       updated_at = None \<rparr>"

definition sample_world :: "image_data list \<Rightarrow> fault list \<Rightarrow> world" where
  "sample_world t fs = \<lparr> bucket = [], table = t, faults = fs, calls = [] \<rparr>"

text \<open>The key of an item as the table reports it in a last evaluated key.\<close>

definition item_key :: "image_data \<Rightarrow> pyval" where
  "item_key d = PDict [(''image_id'', PStr (image_id d)), (''created_at'', PStr (created_at d))]"

text \<open>
  A page of at most \<open>n\<close> items after the start key, with the key of its last item when
  more items follow.
\<close>

definition sample_page :: "nat \<Rightarrow> pyval option \<Rightarrow> image_data list \<Rightarrow> page" where
  "sample_page n start xs =
     (let rest = (case start of
                    None \<Rightarrow> xs
                  | Some k \<Rightarrow> drop 1 (dropWhile (\<lambda>d. item_key d \<noteq> k) xs));
          got = take n rest
      in \<lparr> items = got,
           last_evaluated_key = (if n < length rest \<and> got \<noteq> [] then item_key (last got)
                                 else PNone),
           count = int (length got) \<rparr>)"

definition sample_query :: "image_data list \<Rightarrow> query_kwargs \<Rightarrow> page" where
  "sample_query t kw =
     sample_page (nat (q_Limit kw)) (q_ExclusiveStartKey kw)
       (filter (\<lambda>d. user_id d = q_user_id kw) t)"

definition sample_scan :: "image_data list \<Rightarrow> scan_kwargs \<Rightarrow> page" where
  "sample_scan t kw =
     (let pg = sample_page (nat (sc_Limit kw)) (sc_ExclusiveStartKey kw) t;
          kept = filter (\<lambda>d.
                   (case sc_filter_user_id kw of None \<Rightarrow> True | Some u \<Rightarrow> user_id d = u) \<and>
                   (case sc_filter_tags kw of
                      None \<Rightarrow> True
                    | Some tg \<Rightarrow> (case tags d of TagsStr s \<Rightarrow> contains tg s | _ \<Rightarrow> False)))
                   (items pg)
      in pg\<lparr>items := kept, count := int (length kept)\<rparr>)"

text \<open>
  The key, the JSON text and the token of the examples, as Python computes them:
  \<open>json.dumps\<close> of the key is the text, and \<open>base64.b64encode\<close> of the text is the token.
\<close>

definition sample_key :: pyval where
  "sample_key = item_key (sample_image ''img1'' ''u1'' ''cat,dog'' False)"

definition sample_json :: string where
  \<open>sample_json = ''{"image_id": "img1", "created_at": "2023-01-01T00:00:00"}''\<close>

definition sample_token :: string where
  "sample_token =
     ''eyJpbWFnZV9pZCI6ICJpbWcxIiwgImNyZWF0ZWRfYXQiOiAiMjAyMy0wMS0wMVQwMDowMDowMCJ9''"

text \<open>
  The environment of the examples. \<open>json.dumps\<close>, \<open>json.loads\<close> and \<open>base64.b64decode\<close> are
  given by their recorded values at the key, the text and the token above and raise on
  every other argument.
\<close>

definition sample_env :: env where
  "sample_env =
     \<lparr> b64encode = (\<lambda>b. map (\<lambda>c. of_nat (of_char c)) (b64_groups (map unat b))),
       b64decode = (\<lambda>s. if s = sample_token then Inr (utf8_encode sample_json)
                         else Inl DecodeError),
       str_encode = utf8_encode,
       bytes_decode = (\<lambda>b. utf8_decode (map unat b)),
       json_dumps = (\<lambda>v. if v = sample_key then Inr sample_json else Inl TypeError),
       json_loads = (\<lambda>s. if s = sample_json then Inr sample_key else Inl DecodeError),
       presigned_url = (\<lambda>key expiration. ''https://bucket.test/'' @ key),
       query_user_index = sample_query,
       scan_table = sample_scan \<rparr>"


text \<open>The environment of the examples with the library functions of the page token.\<close>

definition py_env :: env where
  "py_env = with_python sample_env"

text \<open>One upload: a 200 by 200 JPEG of 1024 bytes, for the user \<open>u1\<close>, with the given tags.\<close>

definition sample_fresh :: fresh where
  "sample_fresh = \<lparr> new_uuid = ''id1'', now_iso = ''2023-01-01T00:00:00'',
                     now_year_month = ''2023/01'' \<rparr>"

definition sample_request :: "string list option \<Rightarrow> ImageUploadRequest" where
  "sample_request tgs = \<lparr> req_title = None, req_description = None, req_tags = tgs,
                           req_user_id = ''u1'' \<rparr>"

definition sample_upload :: "world \<Rightarrow> string list option \<Rightarrow> (string \<times> string) result \<times> world" where
  "sample_upload w tgs =
     upload_image w sample_fresh (PilImage 200 200 (Some ''JPEG'')) (replicate 1024 0)
       ''photo.jpg'' (sample_request tgs)"

definition sample_stored :: "string list option \<Rightarrow> image_data" where
  "sample_stored tgs =
     to_dynamo_data (create_new sample_fresh (sample_request tgs) ''photo.jpg'' 1024
                       ''image/jpeg'' 200 200 ''jpeg'')"


section \<open>Notions for stating the properties\<close>

text \<open>The calls an operation added to the log.\<close>

definition new_calls :: "world \<Rightarrow> world \<Rightarrow> (call \<times> fault) list" where
  "new_calls w w' = drop (length (calls w)) (calls w')"

text \<open>The two paging reads of the table.\<close>

fun is_page_read :: "call \<Rightarrow> bool" where
  "is_page_read (QueryUserIndex kw) = True"
| "is_page_read (Scan kw) = True"
| "is_page_read c = False"


text \<open>
  A cursor as the table gives it: the last evaluated key, a dictionary from attribute
  names to strings (\<open>image_id\<close> and \<open>created_at\<close>, the key that \<open>update_item\<close> is given,
  and \<open>user_id\<close> on the user index), no name twice.
\<close>

fun str_values :: "(string \<times> pyval) list \<Rightarrow> bool" where
  "str_values [] = True"
| "str_values ((k, v) # kvs) = ((case v of PStr x \<Rightarrow> True | _ \<Rightarrow> False) \<and> str_values kvs)"

definition valid_cursor :: "pyval \<Rightarrow> bool" where
  "valid_cursor c =
     (case c of PDict kvs \<Rightarrow> distinct (map fst kvs) \<and> str_values kvs | _ \<Rightarrow> False)"


section \<open>Properties of the validators\<close>

lemma split_not_Nil: "split sep s \<noteq> []"
  by (induction s) (auto split: list.splits)

lemma split_no_sep: "sep \<notin> set s \<Longrightarrow> split sep s = [s]"
  by (induction s) auto

lemma split_tl_Nil: "tl (split sep s) = [] \<longleftrightarrow> sep \<notin> set s"
  by (induction s) (auto split: list.splits simp: split_not_Nil)

text \<open>The last piece of a split is what follows the last separator.\<close>

lemma last_split: "last (split sep s) = rev (takeWhile (\<lambda>c. c \<noteq> sep) (rev s))"
proof (induction s)
  case Nil
  then show ?case by simp
next
  case (Cons c cs)
  obtain p ps where ps: "split sep cs = p # ps"
    using split_not_Nil [of sep cs] by (cases "split sep cs") auto
  have tl: "ps = [] \<longleftrightarrow> sep \<notin> set cs"
    using split_tl_Nil [of sep cs] ps by simp
  show ?case
  proof (cases "sep \<in> set cs")
    case True
    then have "ps \<noteq> []" using tl by simp
    then show ?thesis
      using Cons ps True by (auto simp: takeWhile_append)
  next
    case False
    then have "split sep cs = [cs]" by (rule split_no_sep)
    then show ?thesis
      using False by (auto simp: takeWhile_append takeWhile_eq_all_conv)
  qed
qed

lemma lower_char_dot: "lower_char c = CHR ''.'' \<longleftrightarrow> c = CHR ''.''"
proof
  assume a: "lower_char c = CHR ''.''"
  then have "(of_char (lower_char c) :: nat) = 46" by simp
  then have "(of_char c :: nat) = 46"
    by (auto simp: lower_char_def Let_def split: if_splits)
  then have "(of_char c :: nat) = of_char CHR ''.''" by simp
  then show "c = CHR ''.''" by (simp only: of_char_eq_iff)
next
  assume "c = CHR ''.''"
  then show "lower_char c = CHR ''.''" by (simp add: lower_char_def)
qed

lemma lower_takeWhile_dot:
  "takeWhile (\<lambda>c. c \<noteq> CHR ''.'') (map lower_char s)
     = map lower_char (takeWhile (\<lambda>c. c \<noteq> CHR ''.'') s)"
  by (induction s) (auto simp: lower_char_dot)

text \<open>
  What \<open>validate_file_extension\<close> decides, for every file name: the name is not empty and
  what follows its last dot (the whole name when it has no dot), in lower case, is an
  allowed extension.
\<close>

lemma validate_file_extension_char:
  "validate_file_extension filename \<longleftrightarrow>
     filename \<noteq> [] \<and>
     lower (rev (takeWhile (\<lambda>c. c \<noteq> CHR ''.'') (rev filename))) \<in> set ALLOWED_EXTENSIONS"
  by (simp add: validate_file_extension_def last_split lower_def rev_map lower_takeWhile_dot)

lemma validate_file_extension_empty: "\<not> validate_file_extension []"
  by (simp add: validate_file_extension_def)

text \<open>
  Claim C6 says that every file name without a dot fails \<open>validate_file_extension\<close>.
  The code takes the last piece of the split name, which is the whole name when there is
  no dot: the name \<open>jpg\<close> has no dot and passes.
\<close>

theorem validate_file_extension_dotless:
  "CHR ''.'' \<notin> set ''jpg'' \<and> validate_file_extension ''jpg'' = True"
  by (simp add: validate_file_extension_def ALLOWED_EXTENSIONS_def lower_def lower_char_def)

text \<open>
  Claim C8, as amended:
  \<^item> \<open>validate_title\<close> passes exactly when the title is absent, or is the empty string, or
    has at most 200 characters and is not made of white space only;
  \<^item> every non-empty title that is blank after stripping is rejected with
    \<open>Title cannot be empty\<close>, whatever its length;
  \<^item> every title longer than 200 characters is rejected, with
    \<open>Title must be less than 200 characters\<close> when it is not blank.
\<close>

theorem validate_title_iff:
  "(validate_title ttl = Valid () \<longleftrightarrow>
     (ttl = None \<or> ttl = Some [] \<or>
      (\<exists>t. ttl = Some t \<and> strip t \<noteq> [] \<and> length t \<le> 200))) \<and>
   (t \<noteq> [] \<and> strip t = [] \<longrightarrow>
      validate_title (Some t) = Invalid ''Title cannot be empty'') \<and>
   (200 < length s \<longrightarrow> validate_title (Some s) \<noteq> Valid ()) \<and>
   (200 < length s \<and> strip s \<noteq> [] \<longrightarrow>
      validate_title (Some s) = Invalid ''Title must be less than 200 characters'')"
proof -
  have a: "validate_title ttl = Valid () \<longleftrightarrow>
     (ttl = None \<or> ttl = Some [] \<or>
      (\<exists>t. ttl = Some t \<and> strip t \<noteq> [] \<and> length t \<le> 200))"
    by (auto simp: validate_title_def MAX_TITLE_LENGTH_def strip_def split: option.splits)
  have b: "t \<noteq> [] \<and> strip t = [] \<longrightarrow>
      validate_title (Some t) = Invalid ''Title cannot be empty''"
    by (simp add: validate_title_def)
  have c: "200 < length s \<longrightarrow> validate_title (Some s) \<noteq> Valid ()"
    by (auto simp: validate_title_def MAX_TITLE_LENGTH_def)
  have d: "200 < length s \<and> strip s \<noteq> [] \<longrightarrow>
      validate_title (Some s) = Invalid ''Title must be less than 200 characters''"
    by (auto simp: validate_title_def MAX_TITLE_LENGTH_def)
  show ?thesis using a b c d by blast
qed

theorem validate_title_iff_witness:
  "validate_title (Some ''Sunset'') = Valid () \<and>
   validate_title (Some [CHR '' '', CHR 0x09]) = Invalid ''Title cannot be empty'' \<and>
   validate_title (Some (replicate 201 (CHR ''a'')))
     = Invalid ''Title must be less than 200 characters''"
proof -
  have t: "strip ''Sunset'' \<noteq> [] \<and> length ''Sunset'' \<le> 200"
    by code_simp
  have b: "[CHR '' '', CHR 0x09] \<noteq> [] \<and> strip [CHR '' '', CHR 0x09] = []"
    by code_simp
  have l: "200 < length (replicate 201 (CHR ''a'')) \<and> strip (replicate 201 (CHR ''a'')) \<noteq> []"
    by code_simp
  from validate_title_iff [of "Some ''Sunset''" "[CHR '' '', CHR 0x09]"
      "replicate 201 (CHR ''a'')"] t b l
  show ?thesis by blast
qed

text \<open>
  Claim C8 as stated fails: the title of one space is present and has length 1, and it is
  rejected.
\<close>

theorem validate_title_blank_rejected:
  "length '' '' \<le> 200 \<and> validate_title (Some '' '') = Invalid ''Title cannot be empty''"
  by (simp add: validate_title_def strip_def isspace_def)


section \<open>Properties of the gateways\<close>

lemma get_by_id_cases:
  "ddb_get_image_metadata_by_id w iid =
     (case faults w of
        [] \<Rightarrow>
          (Inr (case filter (\<lambda>d. image_id d = iid) (table w) of [] \<Rightarrow> None | d # _ \<Rightarrow> Some d),
           w\<lparr>calls := calls w @ [(QueryById iid, NoFault)]\<rparr>)
      | NoFault # fs \<Rightarrow>
          (Inr (case filter (\<lambda>d. image_id d = iid) (table w) of [] \<Rightarrow> None | d # _ \<Rightarrow> Some d),
           w\<lparr>faults := fs, calls := calls w @ [(QueryById iid, NoFault)]\<rparr>)
      | RaiseClientError # fs \<Rightarrow>
          (Inr None, w\<lparr>faults := fs, calls := calls w @ [(QueryById iid, RaiseClientError)]\<rparr>)
      | RaiseOther # fs \<Rightarrow>
          (Inl OtherError, w\<lparr>faults := fs, calls := calls w @ [(QueryById iid, RaiseOther)]\<rparr>))"
  by (auto simp: ddb_get_image_metadata_by_id_def boto_call_def split: list.splits fault.splits)

lemma update_cases:
  "ddb_update_image_metadata w iid cat ups =
     (case faults w of
        [] \<Rightarrow>
          (Inr True, w\<lparr>calls := calls w @ [(UpdateItem iid cat ups, NoFault)],
                        table := update_item iid cat ups (table w)\<rparr>)
      | NoFault # fs \<Rightarrow>
          (Inr True, w\<lparr>faults := fs, calls := calls w @ [(UpdateItem iid cat ups, NoFault)],
                        table := update_item iid cat ups (table w)\<rparr>)
      | RaiseClientError # fs \<Rightarrow>
          (Inr False,
           w\<lparr>faults := fs, calls := calls w @ [(UpdateItem iid cat ups, RaiseClientError)]\<rparr>)
      | RaiseOther # fs \<Rightarrow>
          (Inl OtherError,
           w\<lparr>faults := fs, calls := calls w @ [(UpdateItem iid cat ups, RaiseOther)]\<rparr>))"
  by (auto simp: ddb_update_image_metadata_def boto_call_def split: list.splits fault.splits)

text \<open>An update changes no \<open>image_id\<close>, so the items of an id stay where they are.\<close>

lemma filter_update_item:
  "filter (\<lambda>d. image_id d = iid) (update_item iid' cat ups t)
     = map (\<lambda>d. if same_key iid' cat d then fold apply_update ups d else d)
         (filter (\<lambda>d. image_id d = iid) t)"
proof -
  have id1: "image_id (apply_update a d) = image_id d" for a d
    by (cases a) simp_all
  have id: "image_id (fold apply_update ups d) = image_id d" for d
    by (induction ups arbitrary: d) (simp_all add: id1)
  show ?thesis
    unfolding update_item_def
    by (induction t) (auto simp: id)
qed


section \<open>Reading one image\<close>

text \<open>
  Claim C2: a record whose \<open>is_deleted\<close> flag is set and an absent record give the caller
  of \<open>get_image\<close> the same result, whatever the store does (the same faults in both
  worlds); unless the store raises something other than \<open>ClientError\<close>, that result is
  the failure \<open>Image not found\<close>.
\<close>

theorem get_image_deleted_as_absent:
  assumes "faults w1 = faults w2"
    and "filter (\<lambda>d. image_id d = iid) (table w1) = m # ms" and "is_deleted m"
    and "filter (\<lambda>d. image_id d = iid) (table w2) = []"
  shows "fst (get_image e w1 iid incl) = fst (get_image e w2 iid incl) \<and>
         (take 1 (faults w1) \<noteq> [RaiseOther] \<longrightarrow>
            fst (get_image e w1 iid incl) = Failure ''Image not found'')"
  using assms
  by (auto simp: get_image_def get_by_id_cases split: list.splits fault.splits)

theorem get_image_deleted_as_absent_witness:
  "fst (get_image sample_env (sample_world [sample_image ''img1'' ''u1'' ''a'' True] [])
          ''img1'' True)
     = fst (get_image sample_env (sample_world [] []) ''img1'' True) \<and>
   fst (get_image sample_env (sample_world [sample_image ''img1'' ''u1'' ''a'' True] [])
          ''img1'' True)
     = Failure ''Image not found''"
proof -
  let ?m = "sample_image ''img1'' ''u1'' ''a'' True"
  let ?w1 = "sample_world [?m] []"
  let ?w2 = "sample_world [] []"
  have 1: "faults ?w1 = faults ?w2" by (simp add: sample_world_def)
  have 2: "filter (\<lambda>d. image_id d = ''img1'') (table ?w1) = ?m # []"
    by (simp add: sample_world_def sample_image_def)
  have 3: "is_deleted ?m" by (simp add: sample_image_def)
  have 4: "filter (\<lambda>d. image_id d = ''img1'') (table ?w2) = []"
    by (simp add: sample_world_def)
  have 5: "take 1 (faults ?w1) \<noteq> [RaiseOther]" by (simp add: sample_world_def)
  show ?thesis
    using get_image_deleted_as_absent [OF 1 2 3 4, of sample_env True] 5 by blast
qed


text \<open>
  The dictionary that \<open>get_image\<close> returns is the dump of an \<open>ImageResponse\<close>, which has
  no key \<open>s3_key\<close>; so the download link endpoint never gets as far as presigning, for
  any store and any image.
\<close>

lemma get_image_success_dump:
  assumes "get_image e w iid incl = (Success d, w1)"
  shows "\<exists>r. d = model_dump r"
  using assms unfolding get_image_def
  by (auto split: prod.splits sum.splits option.splits if_splits)

lemma getitem_model_dump_s3_key: "getitem (model_dump r) ''s3_key'' = Inl KeyError"
  by (simp add: getitem_def model_dump_def)

lemma get_image_download_url_no_response:
  "fst (get_image_download_url e w iid expires_in) \<noteq> Response link"
proof (cases "get_image e w iid False")
  case (Pair res w1)
  show ?thesis
  proof (cases res)
    case (Failure err)
    then show ?thesis using Pair by (simp add: get_image_download_url_def)
  next
    case (Success d)
    with Pair get_image_success_dump obtain r where "d = model_dump r" by blast
    then show ?thesis using Pair Success
      by (simp add: get_image_download_url_def getitem_model_dump_s3_key)
  qed
qed

text \<open>
  Claim C7 says that the download link endpoint answers 200 with the presigned URL for
  every live record. For the live record \<open>img1\<close> and a store without faults it raises the
  \<open>HTTPException\<close> with status 500 and \<open>Internal server error\<close>, after the one query for the
  record and without a presigning call.
\<close>

theorem get_image_download_url_live_500:
  "\<not> is_deleted (sample_image ''img1'' ''u1'' ''cat,dog'' False) \<and>
   get_image_download_url sample_env
     (sample_world [sample_image ''img1'' ''u1'' ''cat,dog'' False] []) ''img1'' 3600
   = (HTTPException 500 ''Internal server error'',
      \<lparr> bucket = [], table = [sample_image ''img1'' ''u1'' ''cat,dog'' False], faults = [],
        calls = [(QueryById ''img1'', NoFault)] \<rparr>)"
  by code_simp


section \<open>Tags, written and read back\<close>

text \<open>
  On a non-empty list of tags that \<open>validate_tags\<close> accepts, joining by commas and
  reading back gives every tag stripped, in order; no tag that is read back is empty.
\<close>

lemma split_append_sep:
  "sep \<notin> set x \<Longrightarrow> split sep (x @ sep # rest) = x # split sep rest"
  by (induction x) (auto split: list.splits)

lemma split_join:
  "ts \<noteq> [] \<Longrightarrow> \<forall>t \<in> set ts. sep \<notin> set t \<Longrightarrow> split sep (join [sep] ts) = ts"
proof (induction "[sep]" ts rule: join.induct)
  case 1
  then show ?case by simp
next
  case (2 x)
  then show ?case by (simp add: split_no_sep)
next
  case (3 x y ys)
  then show ?case by (simp add: split_append_sep)
qed

lemma strip_eq_Nil: "strip s = [] \<longleftrightarrow> (\<forall>c \<in> set s. isspace c)"
proof -
  have "strip s = [] \<longleftrightarrow> (\<forall>c \<in> set (dropWhile isspace s). isspace c)"
    by (simp add: strip_def dropWhile_eq_Nil_conv)
  also have "\<dots> \<longleftrightarrow> dropWhile isspace s = []"
    by (metis dropWhile_eq_Nil_conv hd_dropWhile hd_in_set empty_iff empty_set)
  also have "\<dots> \<longleftrightarrow> (\<forall>c \<in> set s. isspace c)"
    by (simp add: dropWhile_eq_Nil_conv)
  finally show ?thesis .
qed

lemma set_join: "t \<in> set ts \<Longrightarrow> set t \<subseteq> set (join sep ts)"
  by (induction sep ts rule: join.induct) auto

lemma tag_char_comma: "\<not> tag_char CHR '',''"
  by (simp add: tag_char_def alnum_def isspace_def)

lemma re_match_no_comma:
  assumes "re_match_class tag_char t"
  shows "CHR '','' \<notin> set t"
proof
  assume c: "CHR '','' \<in> set t"
  have "set t = set (takeWhile tag_char t) \<union> set (dropWhile tag_char t)"
    by (metis set_append takeWhile_dropWhile_id)
  moreover have "CHR '','' \<notin> set (takeWhile tag_char t)"
    using tag_char_comma by (metis set_takeWhileD)
  moreover have "CHR '','' \<notin> set (dropWhile tag_char t)"
  proof (cases "dropWhile tag_char t")
    case Nil
    show ?thesis unfolding Nil by simp
  next
    case (Cons a rest)
    then have "a = CHR 0x0A \<and> rest = []"
      using assms by (simp add: re_match_class_def)
    then show ?thesis using Cons by simp
  qed
  ultimately show False using c by simp
qed

lemma validate_each_tag_valid:
  "validate_each_tag ts = Valid u \<Longrightarrow>
     \<forall>t \<in> set ts. strip t \<noteq> [] \<and> length t \<le> 50 \<and> re_match_class tag_char t"
  by (induction ts) (auto simp: MAX_TAG_LENGTH_def split: if_splits)

lemma tags_round_trip:
  assumes v: "validate_tags (Some ts) = Valid u" and ne: "ts \<noteq> []"
  shows "tags (convert_dynamo_to_api_format (to_dynamo_data (m\<lparr>md_tags := Some ts\<rparr>)))
           = TagsList (map strip ts)"
proof -
  from v ne have each: "\<forall>t \<in> set ts. strip t \<noteq> [] \<and> length t \<le> 50 \<and> re_match_class tag_char t"
    using validate_each_tag_valid by (auto simp: validate_tags_def split: if_splits)
  then have nc: "\<forall>t \<in> set ts. CHR '','' \<notin> set t"
    using re_match_no_comma by blast
  have sp: "split CHR '','' (join '','' ts) = ts"
    using split_join [OF ne nc] by simp
  obtain t0 where t0: "t0 \<in> set ts" using ne by (cases ts) auto
  then obtain c where "c \<in> set t0" "\<not> isspace c"
    using each strip_eq_Nil by blast
  then have nb: "strip (join '','' ts) \<noteq> []"
    using set_join [OF t0, of "'',''"] strip_eq_Nil by blast
  then have nn: "join '','' ts \<noteq> []" by (auto simp: strip_def)
  have fl: "filter (\<lambda>tag. strip tag \<noteq> []) ts = ts"
    using each by (simp add: filter_id_conv)
  show ?thesis
    using ne nb nn
    by (simp add: to_dynamo_data_def metadata_model_dump_def convert_dynamo_to_api_format_def
          sp fl)
qed

lemma read_tags_not_empty:
  assumes "tags d = TagsStr s" "tags (convert_dynamo_to_api_format d) = TagsList l"
  shows "[] \<notin> set l"
  using assms
  by (auto simp: convert_dynamo_to_api_format_def split: if_splits)

lemma tags_round_trip_example:
  "tags (convert_dynamo_to_api_format
           (to_dynamo_data
              ((create_new sample_fresh (sample_request None) ''photo.jpg'' 1024
                  ''image/jpeg'' 200 200 ''jpeg'')\<lparr>md_tags := Some ['' cat'', ''dog '']\<rparr>)))
     = TagsList [''cat'', ''dog'']"
proof -
  have v: "validate_tags (Some ['' cat'', ''dog '']) = Valid ()" by code_simp
  have ne: "['' cat'', ''dog ''] \<noteq> []" by simp
  have st: "map strip ['' cat'', ''dog ''] = [''cat'', ''dog'']" by code_simp
  show ?thesis using tags_round_trip [OF v ne] st by simp
qed

lemma read_tags_not_empty_example:
  "[] \<notin> set [''cat'', ''dog''] \<and>
   tags (convert_dynamo_to_api_format (sample_image ''img1'' ''u1'' ''cat,, dog'' False))
     = TagsList [''cat'', ''dog'']"
proof -
  let ?d = "sample_image ''img1'' ''u1'' ''cat,, dog'' False"
  have 1: "tags ?d = TagsStr ''cat,, dog''" by (simp add: sample_image_def)
  have 2: "tags (convert_dynamo_to_api_format ?d) = TagsList [''cat'', ''dog'']" by code_simp
  show ?thesis using read_tags_not_empty [OF 1 2] 2 by simp
qed

text \<open>
  Claim C10 says that the tags of every upload come back from the read paths, unchanged
  when they are trimmed already. An upload with the empty tag list succeeds and stores
  the empty string; \<open>_convert_dynamo_to_api_format\<close> leaves the empty string as it is, a
  string and not the empty list; \<open>get_image\<close> of the new image then fails with
  \<open>Internal server error\<close>.
\<close>

theorem upload_without_tags_unreadable:
  "fst (sample_upload (sample_world [] []) (Some []))
     = Success (''id1'', ''Image uploaded successfully'') \<and>
   table (snd (sample_upload (sample_world [] []) (Some []))) = [sample_stored (Some [])] \<and>
   tags (sample_stored (Some [])) = TagsStr [] \<and>
   tags (convert_dynamo_to_api_format (sample_stored (Some []))) = TagsStr [] \<and>
   fst (get_image sample_env (snd (sample_upload (sample_world [] []) (Some []))) ''id1'' True)
     = Failure ''Internal server error''"
  by code_simp


section \<open>Soft delete\<close>

text \<open>
  Claim C5: for a live record and its owner, with a store that does not fail, the first
  \<open>delete_image\<close> succeeds, the second fails with \<open>Image already deleted\<close> and leaves
  the table as the first call left it; the first call sets \<open>is_deleted\<close> and \<open>updated_at\<close>
  on the record. The deleted state is absorbing: whoever calls \<open>delete_image\<close> on a
  deleted record, and whatever the store does, the table stays as it is.
\<close>

theorem delete_image_idempotent:
  assumes live: "filter (\<lambda>d. image_id d = iid) (table w) = m # ms"
      "\<not> is_deleted m" "user_id m = uid"
    and ok: "faults w = []"
    and gone: "filter (\<lambda>d. image_id d = iid') (table v) = m' # ms'" "is_deleted m'"
  shows "fst (delete_image w now1 iid uid) = Success (''Image deleted successfully'', iid) \<and>
         fst (delete_image (snd (delete_image w now1 iid uid)) now2 iid uid)
           = Failure ''Image already deleted'' \<and>
         table (snd (delete_image (snd (delete_image w now1 iid uid)) now2 iid uid))
           = table (snd (delete_image w now1 iid uid)) \<and>
         filter (\<lambda>d. image_id d = iid) (table (snd (delete_image w now1 iid uid)))
           = m\<lparr>is_deleted := True, updated_at := Some now1\<rparr>
             # map (\<lambda>d. if same_key iid (created_at m) d
                         then d\<lparr>is_deleted := True, updated_at := Some now1\<rparr> else d) ms \<and>
         table (snd (delete_image v now' iid' uid')) = table v"
proof -
  let ?ups = "[Set_is_deleted True, Set_updated_at now1]"
  let ?w1 = "snd (delete_image w now1 iid uid)"
  have first: "delete_image w now1 iid uid =
      (Success (''Image deleted successfully'', iid),
       w\<lparr>calls := calls w @ [(QueryById iid, NoFault)],
          calls := calls w @ [(QueryById iid, NoFault)]
                     @ [(UpdateItem iid (created_at m) ?ups, NoFault)],
          table := update_item iid (created_at m) ?ups (table w)\<rparr>)"
    using live ok by (simp add: delete_image_def get_by_id_cases update_cases)
  have w1_faults: "faults ?w1 = []" using first ok by simp
  have w1_table: "table ?w1 = update_item iid (created_at m) ?ups (table w)"
    using first by simp
  have sk: "same_key iid (created_at m) m"
    using live(1) by (metis (mono_tags, lifting) filter_eq_ConsD same_key_def)
  have w1_items: "filter (\<lambda>d. image_id d = iid) (table ?w1)
      = m\<lparr>is_deleted := True, updated_at := Some now1\<rparr>
        # map (\<lambda>d. if same_key iid (created_at m) d
                    then d\<lparr>is_deleted := True, updated_at := Some now1\<rparr> else d) ms"
    using sk by (simp add: w1_table filter_update_item live(1))
  have second: "delete_image ?w1 now2 iid uid =
      (Failure ''Image already deleted'',
       ?w1\<lparr>calls := calls ?w1 @ [(QueryById iid, NoFault)]\<rparr>)"
    using w1_items w1_faults live(3) by (simp add: delete_image_def get_by_id_cases)
  have absorbing: "table (snd (delete_image v now' iid' uid')) = table v"
    using gone by (auto simp: delete_image_def get_by_id_cases split: list.splits fault.splits)
  show ?thesis
    using first second w1_items absorbing by simp
qed


theorem delete_image_idempotent_witness:
  "fst (delete_image (sample_world [sample_image ''img1'' ''u1'' ''a'' False] [])
          ''t1'' ''img1'' ''u1'')
     = Success (''Image deleted successfully'', ''img1'') \<and>
   fst (delete_image
          (snd (delete_image (sample_world [sample_image ''img1'' ''u1'' ''a'' False] [])
                  ''t1'' ''img1'' ''u1''))
          ''t2'' ''img1'' ''u1'')
     = Failure ''Image already deleted'' \<and>
   table (snd (delete_image
          (snd (delete_image (sample_world [sample_image ''img1'' ''u1'' ''a'' False] [])
                  ''t1'' ''img1'' ''u1''))
          ''t2'' ''img1'' ''u1''))
     = table (snd (delete_image (sample_world [sample_image ''img1'' ''u1'' ''a'' False] [])
                  ''t1'' ''img1'' ''u1'')) \<and>
   filter (\<lambda>d. image_id d = ''img1'')
     (table (snd (delete_image (sample_world [sample_image ''img1'' ''u1'' ''a'' False] [])
                  ''t1'' ''img1'' ''u1'')))
     = [(sample_image ''img1'' ''u1'' ''a'' False)
          \<lparr>is_deleted := True, updated_at := Some ''t1''\<rparr>] \<and>
   table (snd (delete_image (sample_world [sample_image ''img2'' ''u1'' ''a'' True] [])
                 ''t3'' ''img2'' ''u2''))
     = table (sample_world [sample_image ''img2'' ''u1'' ''a'' True] [])"
proof -
  let ?m = "sample_image ''img1'' ''u1'' ''a'' False"
  let ?w = "sample_world [?m] []"
  let ?m' = "sample_image ''img2'' ''u1'' ''a'' True"
  let ?v = "sample_world [?m'] []"
  have 1: "filter (\<lambda>d. image_id d = ''img1'') (table ?w) = ?m # []"
    by (simp add: sample_world_def sample_image_def)
  have 2: "\<not> is_deleted ?m" by (simp add: sample_image_def)
  have 3: "user_id ?m = ''u1''" by (simp add: sample_image_def)
  have 4: "faults ?w = []" by (simp add: sample_world_def)
  have 5: "filter (\<lambda>d. image_id d = ''img2'') (table ?v) = ?m' # []"
    by (simp add: sample_world_def sample_image_def)
  have 6: "is_deleted ?m'" by (simp add: sample_image_def)
  show ?thesis
    using delete_image_idempotent [OF 1 2 3 4 5 6, of "''t1''" "''t2''" "''t3''" "''u2''"]
    by simp
qed


section \<open>Uploading\<close>

lemma s3_upload_cases:
  "s3_upload_image w c key ct =
     (case faults w of
        [] \<Rightarrow>
          (Inr True, w\<lparr>calls := calls w @ [(PutObject key, NoFault)],
                        bucket := put_object key (c, ct) (bucket w)\<rparr>)
      | NoFault # fs \<Rightarrow>
          (Inr True, w\<lparr>faults := fs, calls := calls w @ [(PutObject key, NoFault)],
                        bucket := put_object key (c, ct) (bucket w)\<rparr>)
      | RaiseClientError # fs \<Rightarrow>
          (Inr False, w\<lparr>faults := fs, calls := calls w @ [(PutObject key, RaiseClientError)]\<rparr>)
      | RaiseOther # fs \<Rightarrow>
          (Inl OtherError, w\<lparr>faults := fs, calls := calls w @ [(PutObject key, RaiseOther)]\<rparr>))"
  by (auto simp: s3_upload_image_def boto_call_def split: list.splits fault.splits)

lemma s3_delete_cases:
  "s3_delete_image w key =
     (case faults w of
        [] \<Rightarrow>
          (Inr True, w\<lparr>calls := calls w @ [(DeleteObject key, NoFault)],
                        bucket := filter (\<lambda>kv. fst kv \<noteq> key) (bucket w)\<rparr>)
      | NoFault # fs \<Rightarrow>
          (Inr True, w\<lparr>faults := fs, calls := calls w @ [(DeleteObject key, NoFault)],
                        bucket := filter (\<lambda>kv. fst kv \<noteq> key) (bucket w)\<rparr>)
      | RaiseClientError # fs \<Rightarrow>
          (Inr False, w\<lparr>faults := fs, calls := calls w @ [(DeleteObject key, RaiseClientError)]\<rparr>)
      | RaiseOther # fs \<Rightarrow>
          (Inl OtherError, w\<lparr>faults := fs, calls := calls w @ [(DeleteObject key, RaiseOther)]\<rparr>))"
  by (auto simp: s3_delete_image_def boto_call_def split: list.splits fault.splits)

lemma put_metadata_cases:
  "ddb_put_image_metadata w d =
     (case faults w of
        [] \<Rightarrow>
          (Inr True, w\<lparr>calls := calls w @ [(PutItem d, NoFault)],
                        table := put_item d (table w)\<rparr>)
      | NoFault # fs \<Rightarrow>
          (Inr True, w\<lparr>faults := fs, calls := calls w @ [(PutItem d, NoFault)],
                        table := put_item d (table w)\<rparr>)
      | RaiseClientError # fs \<Rightarrow>
          (Inr False, w\<lparr>faults := fs, calls := calls w @ [(PutItem d, RaiseClientError)]\<rparr>)
      | RaiseOther # fs \<Rightarrow>
          (Inl OtherError, w\<lparr>faults := fs, calls := calls w @ [(PutItem d, RaiseOther)]\<rparr>))"
  by (auto simp: ddb_put_image_metadata_def boto_call_def split: list.splits fault.splits)

lemma map_of_put_object: "map_of (put_object key obj b) key = Some obj"
  by (simp add: put_object_def)

lemma map_of_filter_key: "map_of (filter (\<lambda>kv. fst kv \<noteq> key) b) key = None"
  by (induction b) auto

lemma to_dynamo_data_s3_key: "s3_key (to_dynamo_data m) = md_s3_key m"
  by (simp add: to_dynamo_data_def metadata_model_dump_def Let_def split: option.splits)

lemma to_dynamo_data_content_type: "content_type (to_dynamo_data m) = md_content_type m"
  by (simp add: to_dynamo_data_def metadata_model_dump_def Let_def split: option.splits)

lemma to_dynamo_data_image_id: "image_id (to_dynamo_data m) = md_image_id m"
  by (simp add: to_dynamo_data_def metadata_model_dump_def Let_def split: option.splits)


lemma store_runs:
  assumes run: "(case s3_upload_image w content key ct of
            (Inl ex, w1) \<Rightarrow> (Failure ''Internal server error during upload'', w1)
          | (Inr False, w1) \<Rightarrow> (Failure ''Failed to upload image to storage'', w1)
          | (Inr True, w1) \<Rightarrow>
              (case ddb_put_image_metadata w1 d of
                 (Inl ex, w2) \<Rightarrow> (Failure ''Internal server error during upload'', w2)
               | (Inr False, w2) \<Rightarrow>
                   (case s3_delete_image w2 key of
                      (Inl ex, w3) \<Rightarrow> (Failure ''Internal server error during upload'', w3)
                    | (Inr _, w3) \<Rightarrow> (Failure ''Failed to store image metadata'', w3))
               | (Inr True, w2) \<Rightarrow> (Success (iid, ''Image uploaded successfully''), w2))) = (res, w')"
  shows "(\<exists>f. f \<noteq> NoFault \<and> new_calls w w' = [(PutObject key, f)] \<and> table w' = table w
        \<and> bucket w' = bucket w \<and> (\<exists>err. res = Failure err)
        \<and> (f = RaiseClientError \<longrightarrow> res = Failure ''Failed to upload image to storage'')) \<or>
    (new_calls w w' = [(PutObject key, NoFault), (PutItem d, NoFault)]
        \<and> table w' = put_item d (table w)
        \<and> bucket w' = put_object key (content, ct) (bucket w)
        \<and> res = Success (iid, ''Image uploaded successfully'')) \<or>
    (new_calls w w' = [(PutObject key, NoFault), (PutItem d, RaiseOther)]
        \<and> table w' = table w
        \<and> bucket w' = put_object key (content, ct) (bucket w)
        \<and> res = Failure ''Internal server error during upload'') \<or>
    (\<exists>f. new_calls w w' = [(PutObject key, NoFault), (PutItem d, RaiseClientError),
                               (DeleteObject key, f)]
        \<and> table w' = table w
        \<and> (f = NoFault \<longrightarrow> map_of (bucket w') key = None)
        \<and> (f \<noteq> NoFault \<longrightarrow> bucket w' = put_object key (content, ct) (bucket w))
        \<and> (f \<noteq> RaiseOther \<longrightarrow> res = Failure ''Failed to store image metadata'')
        \<and> (f = RaiseOther \<longrightarrow> res = Failure ''Internal server error during upload''))"
proof -
  let ?S = "[s3_upload_cases, put_metadata_cases, s3_delete_cases]"
  have d1: "f \<noteq> NoFault \<Longrightarrow> new_calls w w' = [(PutObject key, f)] \<Longrightarrow> table w' = table w
      \<Longrightarrow> bucket w' = bucket w \<Longrightarrow> res = Failure err
      \<Longrightarrow> (f = RaiseClientError \<Longrightarrow> res = Failure ''Failed to upload image to storage'')
      \<Longrightarrow> ?thesis" for f err
    by (rule disjI1) blast
  have d2: "new_calls w w' = [(PutObject key, NoFault), (PutItem d, NoFault)]
      \<Longrightarrow> table w' = put_item d (table w)
      \<Longrightarrow> bucket w' = put_object key (content, ct) (bucket w)
      \<Longrightarrow> res = Success (iid, ''Image uploaded successfully'') \<Longrightarrow> ?thesis"
    by (rule disjI2, rule disjI1) blast
  have d3: "new_calls w w' = [(PutObject key, NoFault), (PutItem d, RaiseOther)]
      \<Longrightarrow> table w' = table w
      \<Longrightarrow> bucket w' = put_object key (content, ct) (bucket w)
      \<Longrightarrow> res = Failure ''Internal server error during upload'' \<Longrightarrow> ?thesis"
    by (rule disjI2, rule disjI2, rule disjI1) blast
  have d4: "new_calls w w' = [(PutObject key, NoFault), (PutItem d, RaiseClientError),
                               (DeleteObject key, f)]
      \<Longrightarrow> table w' = table w
      \<Longrightarrow> (f = NoFault \<Longrightarrow> map_of (bucket w') key = None)
      \<Longrightarrow> (f \<noteq> NoFault \<Longrightarrow> bucket w' = put_object key (content, ct) (bucket w))
      \<Longrightarrow> (f \<noteq> RaiseOther \<Longrightarrow> res = Failure ''Failed to store image metadata'')
      \<Longrightarrow> (f = RaiseOther \<Longrightarrow> res = Failure ''Internal server error during upload'')
      \<Longrightarrow> ?thesis" for f
    by (rule disjI2, rule disjI2, rule disjI2) blast
  show ?thesis
  proof (cases "faults w")
    case Nil
    then have "res = Success (iid, ''Image uploaded successfully'')"
      and "new_calls w w' = [(PutObject key, NoFault), (PutItem d, NoFault)]"
      and "table w' = put_item d (table w)"
      and "bucket w' = put_object key (content, ct) (bucket w)"
      using run by (auto simp: s3_upload_cases put_metadata_cases s3_delete_cases new_calls_def map_of_filter_key)
    then show ?thesis by (intro d2)
  next
    case (Cons f1 fs1)
    note fw = this
    show ?thesis
    proof (cases f1)
      case RaiseClientError
      then have "res = Failure ''Failed to upload image to storage''"
      and "new_calls w w' = [(PutObject key, RaiseClientError)]"
      and "table w' = table w" and "bucket w' = bucket w"
      using run fw by (auto simp: s3_upload_cases put_metadata_cases s3_delete_cases new_calls_def map_of_filter_key)
    then show ?thesis by (intro d1 [of RaiseClientError]) simp_all
    next
      case RaiseOther
      then have "res = Failure ''Internal server error during upload''"
      and "new_calls w w' = [(PutObject key, RaiseOther)]"
      and "table w' = table w" and "bucket w' = bucket w"
      using run fw by (auto simp: s3_upload_cases put_metadata_cases s3_delete_cases new_calls_def map_of_filter_key)
    then show ?thesis by (intro d1 [of RaiseOther]) simp_all
    next
      case NoFault
      note f1 = this
      show ?thesis
      proof (cases fs1)
        case Nil
        then have "res = Success (iid, ''Image uploaded successfully'')"
      and "new_calls w w' = [(PutObject key, NoFault), (PutItem d, NoFault)]"
      and "table w' = put_item d (table w)"
      and "bucket w' = put_object key (content, ct) (bucket w)"
      using run fw f1 by (auto simp: s3_upload_cases put_metadata_cases s3_delete_cases new_calls_def map_of_filter_key)
    then show ?thesis by (intro d2)
      next
        case (Cons f2 fs2)
        note fs1 = this
        show ?thesis
        proof (cases f2)
          case NoFault
          then have "res = Success (iid, ''Image uploaded successfully'')"
      and "new_calls w w' = [(PutObject key, NoFault), (PutItem d, NoFault)]"
      and "table w' = put_item d (table w)"
      and "bucket w' = put_object key (content, ct) (bucket w)"
      using run fw f1 fs1 by (auto simp: s3_upload_cases put_metadata_cases s3_delete_cases new_calls_def map_of_filter_key)
    then show ?thesis by (intro d2)
        next
          case RaiseOther
          then have "res = Failure ''Internal server error during upload''"
      and "new_calls w w' = [(PutObject key, NoFault), (PutItem d, RaiseOther)]"
      and "table w' = table w"
      and "bucket w' = put_object key (content, ct) (bucket w)"
      using run fw f1 fs1 by (auto simp: s3_upload_cases put_metadata_cases s3_delete_cases new_calls_def map_of_filter_key)
    then show ?thesis by (intro d3)
        next
          case RaiseClientError
          note f2 = this
          show ?thesis
          proof (cases fs2)
            case Nil
            then have "res = Failure ''Failed to store image metadata''"
      and "new_calls w w' = [(PutObject key, NoFault), (PutItem d, RaiseClientError),
                               (DeleteObject key, NoFault)]"
      and "table w' = table w"
      and "map_of (bucket w') key = None"
      using run fw f1 fs1 f2 by (auto simp: s3_upload_cases put_metadata_cases s3_delete_cases new_calls_def map_of_filter_key)
    then show ?thesis by (intro d4 [of NoFault]) simp_all
          next
            case (Cons f3 fs3)
            note fs2 = this
            show ?thesis
            proof (cases f3)
              case NoFault
              then have "res = Failure ''Failed to store image metadata''"
      and "new_calls w w' = [(PutObject key, NoFault), (PutItem d, RaiseClientError),
                               (DeleteObject key, NoFault)]"
      and "table w' = table w"
      and "map_of (bucket w') key = None"
      using run fw f1 fs1 f2 fs2 by (auto simp: s3_upload_cases put_metadata_cases s3_delete_cases new_calls_def map_of_filter_key)
    then show ?thesis by (intro d4 [of NoFault]) simp_all
            next
              case RaiseClientError
              then have "res = Failure ''Failed to store image metadata''"
      and "new_calls w w' = [(PutObject key, NoFault), (PutItem d, RaiseClientError),
                               (DeleteObject key, RaiseClientError)]"
      and "table w' = table w"
      and "bucket w' = put_object key (content, ct) (bucket w)"
      using run fw f1 fs1 f2 fs2 by (auto simp: s3_upload_cases put_metadata_cases s3_delete_cases new_calls_def map_of_filter_key)
    then show ?thesis by (intro d4 [of RaiseClientError]) simp_all
            next
              case RaiseOther
              then have "res = Failure ''Internal server error during upload''"
      and "new_calls w w' = [(PutObject key, NoFault), (PutItem d, RaiseClientError),
                               (DeleteObject key, RaiseOther)]"
      and "table w' = table w"
      and "bucket w' = put_object key (content, ct) (bucket w)"
      using run fw f1 fs1 f2 fs2 by (auto simp: s3_upload_cases put_metadata_cases s3_delete_cases new_calls_def map_of_filter_key)
    then show ?thesis by (intro d4 [of RaiseOther]) simp_all
            qed
          qed
        qed
      qed
    qed
  qed
qed


lemma upload_image_valid:
  assumes "validate_file_extension filename" "validate_file_size (int (length content))"
    and "validate_image_content opened = Valid (wd, ht, fmt)"
    and "validate_title (req_title req) = Valid u1"
    and "validate_description (req_description req) = Valid u2"
    and "validate_tags (req_tags req) = Valid u3"
    and "validate_user_id (req_user_id req) = Valid u4"
  shows "upload_image w fr opened content filename req =
    (let md = create_new fr req filename (int (length content)) (''image/'' @ fmt) wd ht fmt
     in case s3_upload_image w content (md_s3_key md) (md_content_type md) of
            (Inl ex, w1) \<Rightarrow> (Failure ''Internal server error during upload'', w1)
          | (Inr False, w1) \<Rightarrow> (Failure ''Failed to upload image to storage'', w1)
          | (Inr True, w1) \<Rightarrow>
              (case ddb_put_image_metadata w1 (to_dynamo_data md) of
                 (Inl ex, w2) \<Rightarrow> (Failure ''Internal server error during upload'', w2)
               | (Inr False, w2) \<Rightarrow>
                   (case s3_delete_image w2 (md_s3_key md) of
                      (Inl ex, w3) \<Rightarrow> (Failure ''Internal server error during upload'', w3)
                    | (Inr _, w3) \<Rightarrow> (Failure ''Failed to store image metadata'', w3))
               | (Inr True, w2) \<Rightarrow>
                   (Success (md_image_id md, ''Image uploaded successfully''), w2)))"
  unfolding upload_image_def by (simp add: assms)

lemma upload_image_invalid:
  assumes "\<not> (validate_file_extension filename \<and> validate_file_size (int (length content))
      \<and> (\<exists>x. validate_image_content opened = Valid x)
      \<and> (\<exists>u. validate_title (req_title req) = Valid u)
      \<and> (\<exists>u. validate_description (req_description req) = Valid u)
      \<and> (\<exists>u. validate_tags (req_tags req) = Valid u)
      \<and> (\<exists>u. validate_user_id (req_user_id req) = Valid u))"
  shows "\<exists>err. upload_image w fr opened content filename req = (Failure err, w)"
  using assms unfolding upload_image_def
  apply (simp split: validation.splits add: case_prod_beta)
  apply blast
  done

lemma upload_image_phases:
  assumes run: "upload_image w fr opened content filename req = (res, w')"
  shows "(w' = w \<and> (\<exists>err. res = Failure err)) \<or>
    (\<exists>md. (case s3_upload_image w content (md_s3_key md) (md_content_type md) of
            (Inl ex, w1) \<Rightarrow> (Failure ''Internal server error during upload'', w1)
          | (Inr False, w1) \<Rightarrow> (Failure ''Failed to upload image to storage'', w1)
          | (Inr True, w1) \<Rightarrow>
              (case ddb_put_image_metadata w1 (to_dynamo_data md) of
                 (Inl ex, w2) \<Rightarrow> (Failure ''Internal server error during upload'', w2)
               | (Inr False, w2) \<Rightarrow>
                   (case s3_delete_image w2 (md_s3_key md) of
                      (Inl ex, w3) \<Rightarrow> (Failure ''Internal server error during upload'', w3)
                    | (Inr _, w3) \<Rightarrow> (Failure ''Failed to store image metadata'', w3))
               | (Inr True, w2) \<Rightarrow>
                   (Success (md_image_id md, ''Image uploaded successfully''), w2)))
          = (res, w'))"
proof (cases "validate_file_extension filename \<and> validate_file_size (int (length content))
      \<and> (\<exists>x. validate_image_content opened = Valid x)
      \<and> (\<exists>u. validate_title (req_title req) = Valid u)
      \<and> (\<exists>u. validate_description (req_description req) = Valid u)
      \<and> (\<exists>u. validate_tags (req_tags req) = Valid u)
      \<and> (\<exists>u. validate_user_id (req_user_id req) = Valid u)")
  case False
  from upload_image_invalid [OF False, of w fr] run show ?thesis by auto
next
  case True
  then obtain wd ht fmt u1 u2 u3 u4 where v:
    "validate_file_extension filename" "validate_file_size (int (length content))"
    "validate_image_content opened = Valid (wd, ht, fmt)"
    "validate_title (req_title req) = Valid u1"
    "validate_description (req_description req) = Valid u2"
    "validate_tags (req_tags req) = Valid u3"
    "validate_user_id (req_user_id req) = Valid u4"
    by (metis prod_cases3)
  show ?thesis
    using run unfolding upload_image_valid [OF v] Let_def
    by (intro disjI2 exI)
qed

lemma upload_image_runs:
  assumes run: "upload_image w fr opened content filename req = (res, w')"
  shows "(new_calls w w' = [] \<and> table w' = table w \<and> bucket w' = bucket w
        \<and> (\<exists>err. res = Failure err)) \<or>
    (\<exists>(d::image_data) f. f \<noteq> NoFault \<and> new_calls w w' = [(PutObject (s3_key d), f)]
        \<and> table w' = table w
        \<and> bucket w' = bucket w \<and> (\<exists>err. res = Failure err)
        \<and> (f = RaiseClientError \<longrightarrow> res = Failure ''Failed to upload image to storage'')) \<or>
    (\<exists>d. new_calls w w' = [(PutObject (s3_key d), NoFault), (PutItem d, NoFault)]
        \<and> table w' = put_item d (table w)
        \<and> bucket w' = put_object (s3_key d) (content, content_type d) (bucket w)
        \<and> res = Success (image_id d, ''Image uploaded successfully'')) \<or>
    (\<exists>d. new_calls w w' = [(PutObject (s3_key d), NoFault), (PutItem d, RaiseOther)]
        \<and> table w' = table w
        \<and> bucket w' = put_object (s3_key d) (content, content_type d) (bucket w)
        \<and> res = Failure ''Internal server error during upload'') \<or>
    (\<exists>d f. new_calls w w' = [(PutObject (s3_key d), NoFault), (PutItem d, RaiseClientError),
                               (DeleteObject (s3_key d), f)]
        \<and> table w' = table w
        \<and> (f = NoFault \<longrightarrow> map_of (bucket w') (s3_key d) = None)
        \<and> (f \<noteq> NoFault \<longrightarrow>
              bucket w' = put_object (s3_key d) (content, content_type d) (bucket w))
        \<and> (f \<noteq> RaiseOther \<longrightarrow> res = Failure ''Failed to store image metadata'')
        \<and> (f = RaiseOther \<longrightarrow> res = Failure ''Internal server error during upload''))"
proof -
  have r0: "new_calls w w' = [] \<Longrightarrow> table w' = table w \<Longrightarrow> bucket w' = bucket w
      \<Longrightarrow> res = Failure err \<Longrightarrow> ?thesis" for err
    by (rule disjI1, intro conjI exI [of _ err]; assumption)
  have r1: "f \<noteq> NoFault \<Longrightarrow> new_calls w w' = [(PutObject (s3_key d), f)]
      \<Longrightarrow> table w' = table w \<Longrightarrow> bucket w' = bucket w \<Longrightarrow> res = Failure err
      \<Longrightarrow> (f = RaiseClientError \<longrightarrow> res = Failure ''Failed to upload image to storage'')
      \<Longrightarrow> ?thesis" for d :: image_data and f err
    by (rule disjI2, rule disjI1, rule exI [of _ d], rule exI [of _ f],
        intro conjI exI [of _ err]; assumption)
  have r2: "new_calls w w' = [(PutObject (s3_key d), NoFault), (PutItem d, NoFault)]
      \<Longrightarrow> table w' = put_item d (table w)
      \<Longrightarrow> bucket w' = put_object (s3_key d) (content, content_type d) (bucket w)
      \<Longrightarrow> res = Success (image_id d, ''Image uploaded successfully'') \<Longrightarrow> ?thesis" for d
    by (rule disjI2, rule disjI2, rule disjI1, rule exI [of _ d], intro conjI; assumption)
  have r3: "new_calls w w' = [(PutObject (s3_key d), NoFault), (PutItem d, RaiseOther)]
      \<Longrightarrow> table w' = table w
      \<Longrightarrow> bucket w' = put_object (s3_key d) (content, content_type d) (bucket w)
      \<Longrightarrow> res = Failure ''Internal server error during upload'' \<Longrightarrow> ?thesis" for d
    by (rule disjI2, rule disjI2, rule disjI2, rule disjI1, rule exI [of _ d],
        intro conjI; assumption)
  have r4: "new_calls w w' = [(PutObject (s3_key d), NoFault), (PutItem d, RaiseClientError),
                               (DeleteObject (s3_key d), f)]
      \<Longrightarrow> table w' = table w
      \<Longrightarrow> (f = NoFault \<longrightarrow> map_of (bucket w') (s3_key d) = None)
      \<Longrightarrow> (f \<noteq> NoFault \<longrightarrow>
            bucket w' = put_object (s3_key d) (content, content_type d) (bucket w))
      \<Longrightarrow> (f \<noteq> RaiseOther \<longrightarrow> res = Failure ''Failed to store image metadata'')
      \<Longrightarrow> (f = RaiseOther \<longrightarrow> res = Failure ''Internal server error during upload'')
      \<Longrightarrow> ?thesis" for d f
    by (rule disjI2, rule disjI2, rule disjI2, rule disjI2, rule exI [of _ d],
        rule exI [of _ f], intro conjI; assumption)
  from upload_image_phases [OF run] show ?thesis
  proof (elim disjE exE conjE)
    fix err
    assume "w' = w" "res = Failure err"
    then show ?thesis by (intro r0 [of err]) (simp_all add: new_calls_def)
  next
    fix md
    assume st: "(case s3_upload_image w content (md_s3_key md) (md_content_type md) of
            (Inl ex, w1) \<Rightarrow> (Failure ''Internal server error during upload'', w1)
          | (Inr False, w1) \<Rightarrow> (Failure ''Failed to upload image to storage'', w1)
          | (Inr True, w1) \<Rightarrow>
              (case ddb_put_image_metadata w1 (to_dynamo_data md) of
                 (Inl ex, w2) \<Rightarrow> (Failure ''Internal server error during upload'', w2)
               | (Inr False, w2) \<Rightarrow>
                   (case s3_delete_image w2 (md_s3_key md) of
                      (Inl ex, w3) \<Rightarrow> (Failure ''Internal server error during upload'', w3)
                    | (Inr _, w3) \<Rightarrow> (Failure ''Failed to store image metadata'', w3))
               | (Inr True, w2) \<Rightarrow>
                   (Success (md_image_id md, ''Image uploaded successfully''), w2)))
          = (res, w')"
    let ?d = "to_dynamo_data md"
    have k: "md_s3_key md = s3_key ?d" "md_content_type md = content_type ?d"
        "md_image_id md = image_id ?d"
      by (simp_all add: to_dynamo_data_s3_key to_dynamo_data_content_type
            to_dynamo_data_image_id)
    from store_runs [OF st] show ?thesis
      unfolding k
    proof (elim disjE exE conjE)
      fix f err
      assume "f \<noteq> NoFault" "new_calls w w' = [(PutObject (s3_key ?d), f)]"
        "table w' = table w" "bucket w' = bucket w" "res = Failure err"
        "f = RaiseClientError \<longrightarrow> res = Failure ''Failed to upload image to storage''"
      then show ?thesis by (rule r1)
    next
      assume "new_calls w w' = [(PutObject (s3_key ?d), NoFault), (PutItem ?d, NoFault)]"
        "table w' = put_item ?d (table w)"
        "bucket w' = put_object (s3_key ?d) (content, content_type ?d) (bucket w)"
        "res = Success (image_id ?d, ''Image uploaded successfully'')"
      then show ?thesis by (rule r2)
    next
      assume "new_calls w w' = [(PutObject (s3_key ?d), NoFault), (PutItem ?d, RaiseOther)]"
        "table w' = table w"
        "bucket w' = put_object (s3_key ?d) (content, content_type ?d) (bucket w)" "res = Failure ''Internal server error during upload''"
      then show ?thesis by (rule r3)
    next
      fix f
      assume "new_calls w w' = [(PutObject (s3_key ?d), NoFault),
                (PutItem ?d, RaiseClientError), (DeleteObject (s3_key ?d), f)]"
        "table w' = table w"
        "f = NoFault \<longrightarrow> map_of (bucket w') (s3_key ?d) = None"
        "f \<noteq> NoFault \<longrightarrow>
           bucket w' = put_object (s3_key ?d) (content, content_type ?d) (bucket w)"
        "f \<noteq> RaiseOther \<longrightarrow> res = Failure ''Failed to store image metadata''"
        "f = RaiseOther \<longrightarrow> res = Failure ''Internal server error during upload''"
      then show ?thesis by (rule r4)
    qed
  qed
qed

text \<open>
  Claim C1, as amended, for every run of \<open>upload_image\<close>, read off the calls the run added to
  the log:
  \<^item> when the blob write succeeded and the metadata write failed with \<open>ClientError\<close> (the
    gateway returns \<open>False\<close>), one more call follows, the delete of that blob, and the table
    is unchanged; when the delete worked the blob is gone, otherwise it is still stored;
    when the delete worked or failed with \<open>ClientError\<close> the result is the failure
    \<open>Failed to store image metadata\<close>; when the delete raised another exception the result
    is \<open>Internal server error during upload\<close>;
  \<^item> when the blob write succeeded and the metadata write raised another exception, no
    delete follows: the run ends there with \<open>Internal server error during upload\<close>, the
    table unchanged and the blob still stored;
  \<^item> when the blob write failed, it is the only call of the run: no metadata write;
  \<^item> a metadata write is only ever attempted right after a successful blob write under
    the record's storage key;
  \<^item> when the table changed or the upload reports success, both writes succeeded: the
    record is in the table and its blob is in the bucket.
\<close>

theorem upload_image_saga:
  assumes run: "upload_image w fr opened content filename req = (res, w')"
  shows "(\<forall>key d rest.
            new_calls w w' = (PutObject key, NoFault) # (PutItem d, RaiseClientError) # rest \<longrightarrow>
              (\<exists>f. rest = [(DeleteObject key, f)]
                 \<and> (f = NoFault \<longrightarrow> map_of (bucket w') key = None)
                 \<and> (f \<noteq> NoFault \<longrightarrow> map_of (bucket w') key = Some (content, content_type d))
                 \<and> (f \<noteq> RaiseOther \<longrightarrow> res = Failure ''Failed to store image metadata'')
                 \<and> (f = RaiseOther \<longrightarrow> res = Failure ''Internal server error during upload''))
              \<and> table w' = table w) \<and>
         (\<forall>key d rest.
            new_calls w w' = (PutObject key, NoFault) # (PutItem d, RaiseOther) # rest \<longrightarrow>
              rest = [] \<and> res = Failure ''Internal server error during upload''
              \<and> table w' = table w
              \<and> map_of (bucket w') key = Some (content, content_type d)) \<and>
         (\<forall>key f. (PutObject key, f) \<in> set (new_calls w w') \<and> f \<noteq> NoFault \<longrightarrow>
              new_calls w w' = [(PutObject key, f)] \<and> table w' = table w) \<and>
         (\<forall>d f. (PutItem d, f) \<in> set (new_calls w w') \<longrightarrow>
              (\<exists>rest. new_calls w w' = (PutObject (s3_key d), NoFault) # (PutItem d, f) # rest)) \<and>
         (table w' \<noteq> table w \<or> (\<exists>r. res = Success r) \<longrightarrow>
              (\<exists>d. new_calls w w' = [(PutObject (s3_key d), NoFault), (PutItem d, NoFault)]
                 \<and> table w' = put_item d (table w)
                 \<and> map_of (bucket w') (s3_key d) = Some (content, content_type d)
                 \<and> res = Success (image_id d, ''Image uploaded successfully'')))"
proof -
  note runs = upload_image_runs [OF run]
  have a: "\<forall>key d rest.
            new_calls w w' = (PutObject key, NoFault) # (PutItem d, RaiseClientError) # rest \<longrightarrow>
              (\<exists>f. rest = [(DeleteObject key, f)]
                 \<and> (f = NoFault \<longrightarrow> map_of (bucket w') key = None)
                 \<and> (f \<noteq> NoFault \<longrightarrow> map_of (bucket w') key = Some (content, content_type d))
                 \<and> (f \<noteq> RaiseOther \<longrightarrow> res = Failure ''Failed to store image metadata'')
                 \<and> (f = RaiseOther \<longrightarrow> res = Failure ''Internal server error during upload''))
              \<and> table w' = table w"
    using runs by (elim disjE exE conjE) (auto simp: map_of_put_object)
  have e: "\<forall>key d rest.
            new_calls w w' = (PutObject key, NoFault) # (PutItem d, RaiseOther) # rest \<longrightarrow>
              rest = [] \<and> res = Failure ''Internal server error during upload''
              \<and> table w' = table w
              \<and> map_of (bucket w') key = Some (content, content_type d)"
    using runs by (elim disjE exE conjE) (auto simp: map_of_put_object)
  have b: "\<forall>key f. (PutObject key, f) \<in> set (new_calls w w') \<and> f \<noteq> NoFault \<longrightarrow>
              new_calls w w' = [(PutObject key, f)] \<and> table w' = table w"
    using runs by (elim disjE exE conjE) auto
  have c: "\<forall>d f. (PutItem d, f) \<in> set (new_calls w w') \<longrightarrow>
              (\<exists>rest. new_calls w w' = (PutObject (s3_key d), NoFault) # (PutItem d, f) # rest)"
    using runs by (elim disjE exE conjE) auto
  have d: "table w' \<noteq> table w \<or> (\<exists>r. res = Success r) \<longrightarrow>
              (\<exists>d. new_calls w w' = [(PutObject (s3_key d), NoFault), (PutItem d, NoFault)]
                 \<and> table w' = put_item d (table w)
                 \<and> map_of (bucket w') (s3_key d) = Some (content, content_type d)
                 \<and> res = Success (image_id d, ''Image uploaded successfully''))"
    using runs by (elim disjE exE conjE) (auto simp: map_of_put_object)
  show ?thesis using a e b c d by blast
qed

theorem upload_image_saga_witness:
  "new_calls (sample_world [] [NoFault, RaiseClientError, NoFault])
     (snd (sample_upload (sample_world [] [NoFault, RaiseClientError, NoFault]) (Some [''a''])))
     = [(PutObject ''images/2023/01/id1.jpeg'', NoFault),
        (PutItem (sample_stored (Some [''a''])), RaiseClientError),
        (DeleteObject ''images/2023/01/id1.jpeg'', NoFault)] \<and>
   fst (sample_upload (sample_world [] [NoFault, RaiseClientError, NoFault]) (Some [''a'']))
     = Failure ''Failed to store image metadata'' \<and>
   map_of (bucket (snd (sample_upload (sample_world [] [NoFault, RaiseClientError, NoFault])
                          (Some [''a''])))) ''images/2023/01/id1.jpeg'' = None \<and>
   table (snd (sample_upload (sample_world [] [NoFault, RaiseClientError, NoFault])
                 (Some [''a''])))
     = table (sample_world [] [NoFault, RaiseClientError, NoFault])"
proof -
  let ?w = "sample_world [] [NoFault, RaiseClientError, NoFault]"
  let ?run = "sample_upload ?w (Some [''a''])"
  have run: "upload_image ?w sample_fresh (PilImage 200 200 (Some ''JPEG'')) (replicate 1024 0)
       ''photo.jpg'' (sample_request (Some [''a''])) = (fst ?run, snd ?run)"
    by (simp add: sample_upload_def)
  have calls: "new_calls ?w (snd ?run)
     = (PutObject ''images/2023/01/id1.jpeg'', NoFault)
       # (PutItem (sample_stored (Some [''a''])), RaiseClientError)
       # [(DeleteObject ''images/2023/01/id1.jpeg'', NoFault)]"
    by code_simp
  from upload_image_saga [OF run] calls
  have "\<exists>f. [(DeleteObject ''images/2023/01/id1.jpeg'', NoFault)]
             = [(DeleteObject ''images/2023/01/id1.jpeg'', f)]
           \<and> (f = NoFault \<longrightarrow> map_of (bucket (snd ?run)) ''images/2023/01/id1.jpeg'' = None)
           \<and> (f \<noteq> RaiseOther \<longrightarrow> fst ?run = Failure ''Failed to store image metadata'')"
    and "table (snd ?run) = table ?w"
    by blast+
  then show ?thesis using calls by auto
qed

text \<open>
  Claim C1 as stated fails on two runs. In the first the blob write succeeds and the
  metadata write raises an exception that is not a \<open>ClientError\<close>: no delete is attempted,
  the blob stays in the bucket with no record, and the result is
  \<open>Internal server error during upload\<close>, not \<open>Failed to store image metadata\<close>. In the
  second the metadata write fails with \<open>ClientError\<close> and the delete raises such an
  exception: the outcome of the delete changes what the caller is told.
\<close>

theorem upload_image_put_raises_no_delete:
  "new_calls (sample_world [] [NoFault, RaiseOther])
     (snd (sample_upload (sample_world [] [NoFault, RaiseOther]) (Some [''a''])))
     = [(PutObject ''images/2023/01/id1.jpeg'', NoFault),
        (PutItem (sample_stored (Some [''a''])), RaiseOther)] \<and>
   fst (sample_upload (sample_world [] [NoFault, RaiseOther]) (Some [''a'']))
     = Failure ''Internal server error during upload'' \<and>
   map_of (bucket (snd (sample_upload (sample_world [] [NoFault, RaiseOther]) (Some [''a'']))))
     ''images/2023/01/id1.jpeg'' = Some (replicate 1024 0, ''image/jpeg'') \<and>
   table (snd (sample_upload (sample_world [] [NoFault, RaiseOther]) (Some [''a''])))  = [] \<and>
   new_calls (sample_world [] [NoFault, RaiseClientError, RaiseOther])
     (snd (sample_upload (sample_world [] [NoFault, RaiseClientError, RaiseOther])
             (Some [''a''])))
     = [(PutObject ''images/2023/01/id1.jpeg'', NoFault),
        (PutItem (sample_stored (Some [''a''])), RaiseClientError),
        (DeleteObject ''images/2023/01/id1.jpeg'', RaiseOther)] \<and>
   fst (sample_upload (sample_world [] [NoFault, RaiseClientError, RaiseOther]) (Some [''a'']))
     = Failure ''Internal server error during upload''"
  by code_simp


section \<open>Listing images\<close>

text \<open>
  Claim C9: with a non-empty \<open>user_id\<close>, \<open>list_images\<close> takes the query on the user index
  and never looks at the tag: the result and the effects are those of the same call
  without a tag.
\<close>

theorem list_images_owner_ignores_tag:
  "u \<noteq> [] \<Longrightarrow>
     list_images e w limit tok (Some u) tgs = list_images e w limit tok (Some u) None"
  by (simp add: list_images_def split: sum.splits option.splits)

theorem list_images_owner_ignores_tag_witness:
  "list_images sample_env
     (sample_world [sample_image ''img1'' ''u1'' ''cat,dog'' False,
                    sample_image ''img4'' ''u1'' ''bird'' False] [])
     2 None (Some ''u1'') (Some ''dog'')
   = list_images sample_env
     (sample_world [sample_image ''img1'' ''u1'' ''cat,dog'' False,
                    sample_image ''img4'' ''u1'' ''bird'' False] [])
     2 None (Some ''u1'') None"
  using list_images_owner_ignores_tag [of "''u1''"]
  by simp

lemma presign_cases:
  "s3_generate_presigned_url e w key ex =
     (case faults w of
        [] \<Rightarrow> (Inr (Some (presigned_url e key ex)),
               w\<lparr>calls := calls w @ [(GeneratePresignedUrl key ex, NoFault)]\<rparr>)
      | NoFault # fs \<Rightarrow> (Inr (Some (presigned_url e key ex)),
               w\<lparr>faults := fs, calls := calls w @ [(GeneratePresignedUrl key ex, NoFault)]\<rparr>)
      | RaiseClientError # fs \<Rightarrow> (Inr None,
               w\<lparr>faults := fs, calls := calls w @ [(GeneratePresignedUrl key ex, RaiseClientError)]\<rparr>)
      | RaiseOther # fs \<Rightarrow> (Inl OtherError,
               w\<lparr>faults := fs, calls := calls w @ [(GeneratePresignedUrl key ex, RaiseOther)]\<rparr>))"
  by (auto simp: s3_generate_presigned_url_def boto_call_def split: list.splits fault.splits)

lemma presign_effect:
  assumes "s3_generate_presigned_url e w key ex = (r, w1)"
  shows "table w1 = table w \<and> (\<exists>f. calls w1 = calls w @ [(GeneratePresignedUrl key ex, f)])"
  using assms by (auto simp: presign_cases split: list.splits fault.splits)

lemma ImageResponse_of_image_id:
  "ImageResponse_of d = Inr r \<Longrightarrow> r_image_id r = image_id d"
  by (auto simp: ImageResponse_of_def split: tags_value.splits)

lemma convert_image_id: "image_id (convert_dynamo_to_api_format d) = image_id d"
  by (simp add: convert_dynamo_to_api_format_def split: tags_value.splits)

lemma image_responses_ok:
  "image_responses e w xs = (Inr rs, w2) \<Longrightarrow>
     map r_image_id rs = map image_id xs \<and> table w2 = table w \<and>
     (\<exists>cs. calls w2 = calls w @ cs \<and> filter (\<lambda>c. is_page_read (fst c)) cs = [])"
proof (induction xs arbitrary: w rs w2)
  case Nil
  then show ?case by simp
next
  case (Cons img rest)
  from Cons.prems obtain r0 du w1 rs' where
    ir: "ImageResponse_of (convert_dynamo_to_api_format img) = Inr r0"
    and ps: "s3_generate_presigned_url e w (s3_key img) 3600 = (Inr du, w1)"
    and rec: "image_responses e w1 rest = (Inr rs', w2)"
    and rs: "rs = (case du of None \<Rightarrow> r0
                   | Some url \<Rightarrow> if url \<noteq> [] then r0\<lparr>r_download_url := Some url\<rparr> else r0) # rs'"
    by (auto simp: Let_def split: sum.splits prod.splits)
  from Cons.IH [OF rec] obtain cs where
    ih: "map r_image_id rs' = map image_id rest" "table w2 = table w1"
      "calls w2 = calls w1 @ cs" "filter (\<lambda>c. is_page_read (fst c)) cs = []"
    by blast
  from presign_effect [OF ps] obtain f where
    pe: "table w1 = table w" "calls w1 = calls w @ [(GeneratePresignedUrl (s3_key img) 3600, f)]"
    by blast
  have hd: "r_image_id (case du of None \<Rightarrow> r0
                   | Some url \<Rightarrow> if url \<noteq> [] then r0\<lparr>r_download_url := Some url\<rparr> else r0)
            = image_id img"
    using ImageResponse_of_image_id [OF ir] by (simp add: convert_image_id split: option.splits)
  show ?case
    using ih pe hd rs by simp
qed

lemma model_dump_image_id: "map_of (model_dump r) ''image_id'' = Some (PStr (r_image_id r))"
  by (simp add: model_dump_def)

lemma query_effect:
  assumes "ddb_query_images_by_user e w u limit lek = (Inr pg, w1)"
  shows "table w1 = table w \<and>
     ((\<exists>kw. calls w1 = calls w @ [(QueryUserIndex kw, NoFault)]
            \<and> pg = query_user_index e (table w) kw) \<or>
      (\<exists>c. is_page_read c \<and> calls w1 = calls w @ [(c, RaiseClientError)] \<and> pg = empty_page))"
  using assms
  by (auto simp: ddb_query_images_by_user_def boto_call_def Let_def
        split: list.splits fault.splits)

lemma scan_effect:
  assumes "ddb_list_images e w limit lek uid tgs = (Inr pg, w1)"
  shows "table w1 = table w \<and>
     ((\<exists>kw. calls w1 = calls w @ [(Scan kw, NoFault)]
            \<and> pg = scan_table e (table w) kw) \<or>
      (\<exists>c. is_page_read c \<and> calls w1 = calls w @ [(c, RaiseClientError)] \<and> pg = empty_page))"
  using assms
  by (auto simp: ddb_list_images_def boto_call_def Let_def
        split: list.splits fault.splits)

text \<open>
  Claim C3: a successful \<open>list_images\<close> reads exactly one page from the table (a query on
  the user index or a scan; the empty page when that read fails with \<open>ClientError\<close>) and
  reads no second one. The images it returns are the items of that page that are not
  deleted, in order, so there may be fewer than the page holds; \<open>has_more\<close> says whether
  the page came with a last evaluated key, whatever survived the filter.
\<close>

theorem list_images_page:
  assumes run: "list_images e w limit tok uid tgs = (Success r, w')"
  shows "\<exists>pg.
     ((\<exists>kw. filter (\<lambda>c. is_page_read (fst c)) (new_calls w w') = [(QueryUserIndex kw, NoFault)]
             \<and> pg = query_user_index e (table w) kw) \<or>
      (\<exists>kw. filter (\<lambda>c. is_page_read (fst c)) (new_calls w w') = [(Scan kw, NoFault)]
             \<and> pg = scan_table e (table w) kw) \<or>
      (\<exists>c. filter (\<lambda>c. is_page_read (fst c)) (new_calls w w') = [(c, RaiseClientError)]
             \<and> pg = empty_page)) \<and>
     map (\<lambda>d. map_of d ''image_id'') (images r)
       = map (\<lambda>i. Some (PStr (image_id i))) (filter (\<lambda>i. \<not> is_deleted i) (items pg)) \<and>
     total_count r = length (filter (\<lambda>i. \<not> is_deleted i) (items pg)) \<and>
     total_count r \<le> length (items pg) \<and>
     has_more r = (last_evaluated_key pg \<noteq> PNone)"
proof -
  let ?D = "case tok of
              None \<Rightarrow> Inr PNone
            | Some t \<Rightarrow> if t \<noteq> [] then decode_page_token e t else Inr PNone"
  obtain lek where D: "?D = Inr lek"
    using run unfolding list_images_def by (cases ?D) simp_all
  let ?F = "case uid of
                   None \<Rightarrow> ddb_list_images e w limit lek uid tgs
                 | Some u \<Rightarrow> if u \<noteq> [] then ddb_query_images_by_user e w u limit lek
                             else ddb_list_images e w limit lek uid tgs"
  obtain fr w1 where F: "?F = (fr, w1)" by (cases ?F)
  have run1: "(case fr of
        Inl ex \<Rightarrow> (Failure ''Internal server error'', w1)
      | Inr result \<Rightarrow>
               (case image_responses e w1 (filter (\<lambda>img. \<not> is_deleted img) (items result)) of
                     (Inl ex, w2) \<Rightarrow> (Failure ''Internal server error'', w2)
                   | (Inr rs, w2) \<Rightarrow>
                       (case (if truthy (last_evaluated_key result)
                              then map_sum id Some (encode_page_token e (last_evaluated_key result))
                              else Inr None) of
                          Inl ex \<Rightarrow> (Failure ''Internal server error'', w2)
                        | Inr token \<Rightarrow>
                            (Success \<lparr> images = map model_dump rs,
                                       total_count = length rs,
                                       next_page_token = token,
                                       has_more = (last_evaluated_key result \<noteq> PNone) \<rparr>,
                             w2)))) = (Success r, w')"
    using run unfolding list_images_def Let_def D by (simp add: F)
  obtain pg where fr: "fr = Inr pg"
    using run1 by (cases fr) simp_all
  let ?I = "image_responses e w1 (filter (\<lambda>img. \<not> is_deleted img) (items pg))"
  obtain ir0 w2 where I: "?I = (ir0, w2)" by (cases ?I)
  obtain rs where ir0: "ir0 = Inr rs"
    using run1 unfolding fr by (cases ir0) (simp_all add: I)
  let ?T = "if truthy (last_evaluated_key pg)
            then map_sum id Some (encode_page_token e (last_evaluated_key pg))
            else Inr None"
  obtain tokn where T: "?T = Inr tokn"
    using run1 unfolding fr by (cases ?T) (simp_all add: I ir0)
  have fin: "w' = w2" "r = \<lparr> images = map model_dump rs, total_count = length rs,
                  next_page_token = tokn,
                  has_more = (last_evaluated_key pg \<noteq> PNone) \<rparr>"
    using run1 unfolding fr by (simp_all add: I ir0 T)
  have fetch: "?F = (Inr pg, w1)" using F fr by simp
  have ir: "image_responses e w1 (filter (\<lambda>img. \<not> is_deleted img) (items pg)) = (Inr rs, w')"
    using I ir0 fin by simp
  note r = fin(2)
  have fe: "table w1 = table w \<and>
     ((\<exists>kw. calls w1 = calls w @ [(QueryUserIndex kw, NoFault)]
            \<and> pg = query_user_index e (table w) kw) \<or>
      (\<exists>kw. calls w1 = calls w @ [(Scan kw, NoFault)]
            \<and> pg = scan_table e (table w) kw) \<or>
      (\<exists>c. is_page_read c \<and> calls w1 = calls w @ [(c, RaiseClientError)] \<and> pg = empty_page))"
  proof (cases uid)
    case None
    then have "ddb_list_images e w limit lek uid tgs = (Inr pg, w1)" using fetch by simp
    from scan_effect [OF this] show ?thesis by blast
  next
    case (Some u)
    show ?thesis
    proof (cases "u = []")
      case True
      then have "ddb_list_images e w limit lek uid tgs = (Inr pg, w1)"
        using fetch Some by simp
      from scan_effect [OF this] show ?thesis by blast
    next
      case False
      then have "ddb_query_images_by_user e w u limit lek = (Inr pg, w1)"
        using fetch Some by simp
      from query_effect [OF this] show ?thesis by blast
    qed
  qed
  from image_responses_ok [OF ir] obtain cs where
    ok: "map r_image_id rs = map image_id (filter (\<lambda>img. \<not> is_deleted img) (items pg))"
      "calls w' = calls w1 @ cs" "filter (\<lambda>c. is_page_read (fst c)) cs = []"
    by blast
  have len: "length rs = length (filter (\<lambda>img. \<not> is_deleted img) (items pg))"
    using ok(1) by (metis length_map)
  have ids: "map (\<lambda>d. map_of d ''image_id'') (images r)
       = map (\<lambda>i. Some (PStr (image_id i))) (filter (\<lambda>i. \<not> is_deleted i) (items pg))"
  proof -
    have "map (\<lambda>d. map_of d ''image_id'') (images r) = map (\<lambda>x. Some (PStr x)) (map r_image_id rs)"
      by (simp add: r model_dump_image_id comp_def)
    then show ?thesis by (simp add: ok(1) comp_def)
  qed
  have reads: "(\<exists>kw. filter (\<lambda>c. is_page_read (fst c)) (new_calls w w') = [(QueryUserIndex kw, NoFault)]
             \<and> pg = query_user_index e (table w) kw) \<or>
      (\<exists>kw. filter (\<lambda>c. is_page_read (fst c)) (new_calls w w') = [(Scan kw, NoFault)]
             \<and> pg = scan_table e (table w) kw) \<or>
      (\<exists>c. filter (\<lambda>c. is_page_read (fst c)) (new_calls w w') = [(c, RaiseClientError)]
             \<and> pg = empty_page)"
  proof -
    have nc: "calls w1 = calls w @ [x] \<Longrightarrow> is_page_read (fst x) \<Longrightarrow>
        filter (\<lambda>c. is_page_read (fst c)) (new_calls w w') = [x]" for x
      using ok(2,3) by (simp add: new_calls_def)
    from fe show ?thesis
    proof (elim conjE disjE exE)
      fix kw
      assume "calls w1 = calls w @ [(QueryUserIndex kw, NoFault)]"
        "pg = query_user_index e (table w) kw"
      then show ?thesis using nc [of "(QueryUserIndex kw, NoFault)"] by simp
    next
      fix kw
      assume "calls w1 = calls w @ [(Scan kw, NoFault)]"
        "pg = scan_table e (table w) kw"
      then show ?thesis using nc [of "(Scan kw, NoFault)"] by simp
    next
      fix c
      assume "is_page_read c" "calls w1 = calls w @ [(c, RaiseClientError)]" "pg = empty_page"
      then show ?thesis using nc [of "(c, RaiseClientError)"] by simp
    qed
  qed
  have tc: "total_count r = length (filter (\<lambda>i. \<not> is_deleted i) (items pg))"
    using len r by simp
  have hm: "has_more r = (last_evaluated_key pg \<noteq> PNone)"
    using r by simp
  have le: "total_count r \<le> length (items pg)"
    using tc by simp
  show ?thesis
    by (rule exI [of _ pg]) (intro conjI reads ids tc le hm)
qed

theorem list_images_page_witness:
  "\<exists>(r::image_list) (pg::page).
     list_images sample_env
       (sample_world [sample_image ''img0'' ''u1'' ''x'' True,
                      sample_image ''img1'' ''u1'' ''cat,dog'' False,
                      sample_image ''img3'' ''u2'' ''b'' False] [])
       2 None None None
     = (Success r,
        snd (list_images sample_env
          (sample_world [sample_image ''img0'' ''u1'' ''x'' True,
                      sample_image ''img1'' ''u1'' ''cat,dog'' False,
                      sample_image ''img3'' ''u2'' ''b'' False] [])
          2 None None None)) \<and>
     total_count r = 1 \<and> has_more r \<and>
     length (items pg) = 2 \<and>
     length (filter (\<lambda>i. \<not> is_deleted i) (items pg)) = 1 \<and>
     last_evaluated_key pg \<noteq> PNone \<and>
     map (\<lambda>d. map_of d ''image_id'') (images r) = [Some (PStr ''img1'')]"
proof -
  let ?w = "sample_world [sample_image ''img0'' ''u1'' ''x'' True,
                      sample_image ''img1'' ''u1'' ''cat,dog'' False,
                      sample_image ''img3'' ''u2'' ''b'' False] []"
  let ?X = "list_images sample_env ?w 2 None None None"
  let ?kw = "\<lparr> sc_Limit = 2, sc_ExclusiveStartKey = None, sc_filter_user_id = None,
               sc_filter_tags = None \<rparr>"
  have ev: "case fst ?X of Success r \<Rightarrow> total_count r = 1 \<and> has_more r
                 \<and> map (\<lambda>d. map_of d ''image_id'') (images r) = [Some (PStr ''img1'')]
            | Failure err \<Rightarrow> False"
    by code_simp
  then obtain r where r: "?X = (Success r, snd ?X)" "total_count r = 1" "has_more r"
      "map (\<lambda>d. map_of d ''image_id'') (images r) = [Some (PStr ''img1'')]"
    by (cases "fst ?X") (auto simp: prod_eq_iff)
  have reads: "filter (\<lambda>c. is_page_read (fst c)) (new_calls ?w (snd ?X)) = [(Scan ?kw, NoFault)]"
    by code_simp
  have pg: "length (items (scan_table sample_env (table ?w) ?kw)) = 2"
    by code_simp
  from list_images_page [OF r(1)] obtain pg where
    p: "(\<exists>kw. filter (\<lambda>c. is_page_read (fst c)) (new_calls ?w (snd ?X))
                = [(QueryUserIndex kw, NoFault)]
             \<and> pg = query_user_index sample_env (table ?w) kw) \<or>
      (\<exists>kw. filter (\<lambda>c. is_page_read (fst c)) (new_calls ?w (snd ?X)) = [(Scan kw, NoFault)]
             \<and> pg = scan_table sample_env (table ?w) kw) \<or>
      (\<exists>c. filter (\<lambda>c. is_page_read (fst c)) (new_calls ?w (snd ?X)) = [(c, RaiseClientError)]
             \<and> pg = empty_page)"
     and q: "total_count r = length (filter (\<lambda>i. \<not> is_deleted i) (items pg))"
       "has_more r = (last_evaluated_key pg \<noteq> PNone)"
    by blast
  from p reads have "pg = scan_table sample_env (table ?w) ?kw" by auto
  then have "length (items pg) = 2" using pg by simp
  then show ?thesis using r q by (intro exI [of _ r] exI [of _ pg]) simp
qed




end
